theory Spec2Isabelle
  imports Main
begin

section \<open>Values of the host language\<close>

text \<open>
  The restart tool receives its arguments as an untyped value (\<open>args: any\<close>). Only the
  shapes a decoded JSON document can take are modelled; numbers are kept as integers,
  since the proxy only ever tests them for truthiness.
\<close>

datatype js = Undefined | Null | Bool bool | Num int | Str string | Obj "(string \<times> js) list"

fun truthy :: "js \<Rightarrow> bool" where
  "truthy Undefined = False"
| "truthy Null = False"
| "truthy (Bool b) = b"
| "truthy (Num n) = (n \<noteq> 0)"
| "truthy (Str s) = (s \<noteq> [])"
| "truthy (Obj kvs) = True"

text \<open>\<open>a || b\<close>\<close>

definition js_or :: "js \<Rightarrow> js \<Rightarrow> js" where
  "js_or a b = (if truthy a then a else b)"

text \<open>
  \<open>v?.k\<close>: \<open>undefined\<close> on \<open>null\<close> and \<open>undefined\<close>, and on a value without the property.
  Of several bindings of a key the last one counts, as in a decoded JSON object.
\<close>

fun optional_get :: "js \<Rightarrow> string \<Rightarrow> js" where
  "optional_get (Obj kvs) k = (case map_of (rev kvs) k of None \<Rightarrow> Undefined | Some v \<Rightarrow> v)"
| "optional_get v k = Undefined"

text \<open>
  What a \<open>catch\<close> clause can receive: an \<open>McpError\<close> (code and message), any other
  \<open>Error\<close> (message), or a thrown value that is not an \<open>Error\<close>.
\<close>

datatype error = McpError int string | JsError string | NonError js

text \<open>\<open>ErrorCode.MethodNotFound\<close> of the protocol library (JSON-RPC).\<close>

definition MethodNotFound :: int where
  "MethodNotFound = - 32601"

text \<open>\<open>error instanceof McpError && error.code === ErrorCode.MethodNotFound\<close>\<close>

fun isMethodNotFound :: "error \<Rightarrow> bool" where
  "isMethodNotFound (McpError c m) = (c = MethodNotFound)"
| "isMethodNotFound (JsError m) = False"
| "isMethodNotFound (NonError v) = False"

text \<open>\<open>error instanceof Error ? error.message : 'Unknown error'\<close>\<close>

fun errorMessage :: "error \<Rightarrow> string" where
  "errorMessage (McpError c m) = m"
| "errorMessage (JsError m) = m"
| "errorMessage (NonError v) = ''Unknown error''"

section \<open>Data of the proxy\<close>

datatype tool = Tool (name: string) (description: string) (inputSchema: js)

datatype content = TextContent string

text \<open>\<open>CallToolResult\<close>; \<open>isError\<close> is an optional field.\<close>

record call_tool_result =
  content :: "content list"
  isError :: "bool option"

text \<open>The three list-changed notifications of \<open>MCP_PROTOCOL.NOTIFICATIONS\<close>.\<close>

datatype notification = TOOLS_LIST_CHANGED | PROMPTS_LIST_CHANGED | RESOURCES_LIST_CHANGED

text \<open>
  Modelled from the spec: the type declaration \<open>ProxyConfig\<close> (\<open>./types.js\<close> is not
  part of the sources). The class reads \<open>childCommand\<close>, \<open>childArgs\<close> and
  \<open>environment\<close>; the other fields are the ones the specification lists.
\<close>

record proxy_config =
  childCommand :: string
  childArgs :: "string list"
  environment :: "(string \<times> string) list"
  workingDirectory :: string
  autoRestart :: bool
  maxRestarts :: nat
  restartDelay :: nat
  restartTimeout :: nat

text \<open>
  A \<open>StdioClientTransport\<close> object: its identity and the parameters it was built with.
  A \<open>Client\<close> object is represented by its identity alone.
\<close>

datatype transport = Transport (transportId: nat) (spawnCommand: string)
  (spawnArgs: "string list") (spawnEnv: "(string \<times> string) list")

datatype level = DEBUG | INFO | WARN | ERROR

datatype log_data =
    NoData
  | ChildCommand string "string list"
  | ErrorData error
  | ErrorMessage string
  | ToolSummary nat "string list"
  | ForceFlag js
  | StderrProbe bool bool "string list"

text \<open>A call of the logger: level, message, data object, context.\<close>

datatype log_entry = Log level string log_data "string option"

text \<open>
  The state of an \<open>MCPProxy\<close> object, together with what it has done to the outside:
  \<^item> \<open>serverConnected\<close>: whether the upstream \<open>Server\<close> is connected to its transport;
  \<^item> the private fields of the class, under their names;
  \<^item> the references each request handler holds (set by the constructor and by
    \<open>updateChildClient\<close>/\<open>updateChildTools\<close>);
  \<^item> \<open>sent\<close>: the notifications emitted upstream, in order;
  \<^item> \<open>logs\<close>: the calls of the logger, in order;
  \<^item> \<open>allocated\<close>: how many child transport and client objects have been created
    (the source of fresh identities);
  \<^item> \<open>exitCode\<close>: set once \<open>process.exit\<close> has been called.
\<close>

record proxy =
  config :: proxy_config
  serverConnected :: bool
  childClient :: "nat option"
  childTransport :: "transport option"
  isShuttingDown :: bool
  restartInProgress :: bool
  childTools :: "tool list"
  toolHandlerClient :: "nat option"
  toolHandlerTools :: "tool list"
  resourceHandlerClient :: "nat option"
  promptHandlerClient :: "nat option"
  completionHandlerClient :: "nat option"
  coreHandlerClient :: "nat option"
  sent :: "notification list"
  logs :: "log_entry list"
  allocated :: nat
  exitCode :: "int option"

section \<open>Asynchronous functions\<close>

text \<open>
  This section and the next two describe a call that runs alone: no other callback
  runs on the object while the call is suspended. An awaited promise is fulfilled, is
  rejected, or is still pending and stays so. An \<open>async\<close> function accordingly
  returns, throws, or remains suspended at an \<open>await\<close>; in each case the state is the
  one it has left behind. Calls that overlap are described further below.
\<close>

datatype 'a settled = Resolved 'a | Rejected error | Unsettled

datatype 'a completion = Returned 'a | Threw error | Pending

type_synonym 'a async = "proxy \<Rightarrow> 'a completion \<times> proxy"

definition returns :: "'a \<Rightarrow> 'a async" where
  "returns x = (\<lambda>s. (Returned x, s))"

definition throws :: "error \<Rightarrow> 'a async" where
  "throws err = (\<lambda>s. (Threw err, s))"

definition await :: "'a settled \<Rightarrow> 'a async" where
  "await p = (\<lambda>s. case p of
                 Resolved v \<Rightarrow> (Returned v, s)
               | Rejected err \<Rightarrow> (Threw err, s)
               | Unsettled \<Rightarrow> (Pending, s))"

text \<open>An assignment to fields of the object.\<close>

definition update :: "(proxy \<Rightarrow> proxy) \<Rightarrow> unit async" where
  "update f = (\<lambda>s. (Returned (), f s))"

definition then_do :: "'a async \<Rightarrow> ('a \<Rightarrow> 'b async) \<Rightarrow> 'b async" where
  "then_do m k = (\<lambda>s. case m s of
                    (Returned x, s') \<Rightarrow> k x s'
                  | (Threw err, s') \<Rightarrow> (Threw err, s')
                  | (Pending, s') \<Rightarrow> (Pending, s'))"

text \<open>\<open>try { m } catch (error) { h error }\<close>\<close>

definition try_catch :: "'a async \<Rightarrow> (error \<Rightarrow> 'a async) \<Rightarrow> 'a async" where
  "try_catch m h = (\<lambda>s. case m s of
                      (Returned x, s') \<Rightarrow> (Returned x, s')
                    | (Threw err, s') \<Rightarrow> h err s'
                    | (Pending, s') \<Rightarrow> (Pending, s'))"

text \<open>A sequence of statements.\<close>

fun block :: "unit async list \<Rightarrow> unit async" where
  "block [] = returns ()"
| "block (m # ms) = then_do m (\<lambda>_. block ms)"

text \<open>\<open>if (b) { m }\<close>\<close>

definition when_do :: "bool \<Rightarrow> unit async \<Rightarrow> unit async" where
  "when_do b m = (if b then m else returns ())"

definition logger :: "level \<Rightarrow> string \<Rightarrow> log_data \<Rightarrow> string option \<Rightarrow> unit async" where
  "logger lvl msg d ctx = update (\<lambda>s. s\<lparr>logs := logs s @ [Log lvl msg d ctx]\<rparr>)"

section \<open>The environment of one call\<close>

text \<open>
  What the transport object of the child exposes to the stderr probe of
  \<open>startChildServer\<close>: a \<open>_stderrStream\<close>; a \<open>_process\<close> with a \<open>stderr\<close>; a \<open>_process\<close>
  without one, together with the message of the \<open>TypeError\<close> that the engine raises when
  the probe attaches its listener to the missing stream; or neither, together with
  the keys of the transport object.
\<close>

datatype stderr_access =
    StderrStream | ProcessStderr | ProcessOnly string | NoAccess "string list"

text \<open>
  How the promises awaited during one call of a method of the class settle. Each is
  awaited at most once per call.
\<close>

record env =
  clientClose :: "unit settled"
  transportClose :: "unit settled"
  clientConnect :: "unit settled"
  stderrAccess :: stderr_access
  listTools :: "tool list option settled"
  toolsNotification :: "unit settled"
  promptsNotification :: "unit settled"
  resourcesNotification :: "unit settled"
  serverConnect :: "unit settled"
  serverClose :: "unit settled"

section \<open>The class \<open>MCPProxy\<close>\<close>

text \<open>
  The constructor: the fields take their initial values, and every handler is built
  with the current \<open>childClient\<close> (and \<open>childTools\<close>).
\<close>

definition MCPProxy :: "proxy_config \<Rightarrow> proxy" where
  "MCPProxy cfg =
     \<lparr>config = cfg, serverConnected = False,
      childClient = None, childTransport = None,
      isShuttingDown = False, restartInProgress = False, childTools = [],
      toolHandlerClient = None, toolHandlerTools = [],
      resourceHandlerClient = None, promptHandlerClient = None,
      completionHandlerClient = None, coreHandlerClient = None,
      sent = [], logs = [], allocated = 0, exitCode = None\<rparr>"

definition updateHandlersWithChildClient :: "unit async" where
  "updateHandlersWithChildClient = block [
     update (\<lambda>s. s\<lparr>toolHandlerClient := childClient s\<rparr>),
     update (\<lambda>s. s\<lparr>toolHandlerTools := childTools s\<rparr>),
     update (\<lambda>s. s\<lparr>resourceHandlerClient := childClient s\<rparr>),
     update (\<lambda>s. s\<lparr>promptHandlerClient := childClient s\<rparr>),
     update (\<lambda>s. s\<lparr>completionHandlerClient := childClient s\<rparr>),
     update (\<lambda>s. s\<lparr>coreHandlerClient := childClient s\<rparr>)]"

definition stopChildServer :: "env \<Rightarrow> unit async" where
  "stopChildServer e = block [
     (\<lambda>s. when_do (childClient s \<noteq> None) (block [
        try_catch (await (clientClose e))
          (\<lambda>error. logger DEBUG ''Error closing child client'' (ErrorData error) None),
        update (\<lambda>s. s\<lparr>childClient := None\<rparr>),
        update (\<lambda>s. s\<lparr>childTools := []\<rparr>),
        updateHandlersWithChildClient]) s),
     (\<lambda>s. when_do (childTransport s \<noteq> None) (block [
        try_catch (await (transportClose e))
          (\<lambda>error. logger DEBUG ''Error closing child transport'' (ErrorData error) None),
        update (\<lambda>s. s\<lparr>childTransport := None\<rparr>)]) s),
     update (\<lambda>s. s\<lparr>childTools := []\<rparr>)]"

text \<open>\<open>await this.server.notification({ method })\<close>: emitted when the send is fulfilled.\<close>

definition notification :: "unit settled \<Rightarrow> notification \<Rightarrow> unit async" where
  "notification p n = then_do (await p) (\<lambda>_. update (\<lambda>s. s\<lparr>sent := sent s @ [n]\<rparr>))"

definition notifyCapabilityChanges :: "env \<Rightarrow> unit async" where
  "notifyCapabilityChanges e =
     try_catch (block [
        notification (toolsNotification e) TOOLS_LIST_CHANGED,
        notification (promptsNotification e) PROMPTS_LIST_CHANGED,
        notification (resourcesNotification e) RESOURCES_LIST_CHANGED,
        logger DEBUG ''Sent capability change notifications'' NoData None])
       (\<lambda>error. logger DEBUG ''Error sending notifications'' (ErrorData error) None)"

definition mirrorChildCapabilities :: "env \<Rightarrow> unit async" where
  "mirrorChildCapabilities e = (\<lambda>s.
     if childClient s = None then throws (JsError ''Child client not connected'') s
     else
       try_catch
         (then_do (await (listTools e)) (\<lambda>toolsResult. block [
            update (\<lambda>s. s\<lparr>childTools := (case toolsResult of None \<Rightarrow> [] | Some ts \<Rightarrow> ts)\<rparr>),
            updateHandlersWithChildClient,
            (\<lambda>s. logger DEBUG ''Mirrored child capabilities''
                    (ToolSummary (length (childTools s)) (map name (childTools s))) None s),
            (\<lambda>s. when_do (restartInProgress s) (block [
               notifyCapabilityChanges e,
               update (\<lambda>s. s\<lparr>restartInProgress := False\<rparr>)]) s)]))
         (\<lambda>error. then_do
            (logger ERROR ''Failed to mirror child capabilities'' (ErrorData error) None)
            (\<lambda>_. if isMethodNotFound error
                  then block [
                    logger WARN
                      ''Child server does not support tools/list - continuing with empty tool list''
                      NoData None,
                    update (\<lambda>s. s\<lparr>childTools := []\<rparr>),
                    updateHandlersWithChildClient,
                    (\<lambda>s. when_do (restartInProgress s)
                            (update (\<lambda>s. s\<lparr>restartInProgress := False\<rparr>)) s)]
                  else throws error))
         s)"

text \<open>
  The stderr probe of \<open>startChildServer\<close>. Its third branch is reached when the transport
  has a \<open>_process\<close> whose \<open>stderr\<close> is missing, so that attaching the listener raises a
  \<open>TypeError\<close>, caught by the enclosing \<open>try\<close>. In the last branch both flags of the
  logged object are false, since the tests of the first and the third branch have
  failed.
\<close>

definition captureStderr :: "env \<Rightarrow> unit async" where
  "captureStderr e =
     try_catch
       (case stderrAccess e of
          StderrStream \<Rightarrow>
            logger DEBUG ''Found child stderr stream, setting up capture'' NoData
              (Some ''RELOADEROO'')
        | ProcessStderr \<Rightarrow>
            logger DEBUG ''Found child process stderr, setting up capture'' NoData
              (Some ''RELOADEROO'')
        | ProcessOnly message \<Rightarrow> block [
            logger DEBUG ''Found _process property, setting up stderr capture'' NoData
              (Some ''RELOADEROO''),
            throws (JsError message)]
        | NoAccess transportKeys \<Rightarrow>
            logger DEBUG ''No stderr access available from transport''
              (StderrProbe False False transportKeys) (Some ''RELOADEROO''))
       (\<lambda>error. logger DEBUG ''Error setting up stderr capture'' (ErrorData error)
                   (Some ''RELOADEROO''))"

definition startChildServer :: "env \<Rightarrow> unit async" where
  "startChildServer e = block [
     stopChildServer e,
     (\<lambda>s. logger INFO ''Starting child MCP server''
             (ChildCommand (childCommand (config s)) (childArgs (config s))) None s),
     update (\<lambda>s. s\<lparr>childTransport :=
                      Some (Transport (allocated s) (childCommand (config s))
                              (childArgs (config s)) (environment (config s))),
                    allocated := Suc (allocated s)\<rparr>),
     update (\<lambda>s. s\<lparr>childClient := Some (allocated s), allocated := Suc (allocated s)\<rparr>),
     await (clientConnect e),
     captureStderr e,
     mirrorChildCapabilities e,
     logger INFO ''Connected to child MCP server successfully'' NoData None]"

text \<open>
  Modelled from the spec: the constant \<open>PROXY_TOOLS.RESTART_SERVER\<close> (\<open>./constants.js\<close>
  is not part of the sources), the name of the synthetic tool.
\<close>

definition RESTART_SERVER :: string where
  "RESTART_SERVER = ''restart_server''"

definition handleRestartServer :: "env \<Rightarrow> js \<Rightarrow> call_tool_result async" where
  "handleRestartServer e arguments =
     (let force = js_or (optional_get arguments ''force'') (Bool False) in
      try_catch
        (then_do
           (block [
              logger INFO (''Executing '' @ RESTART_SERVER @ '' tool'') (ForceFlag force) None,
              update (\<lambda>s. s\<lparr>restartInProgress := True\<rparr>),
              startChildServer e])
           (\<lambda>_. returns
              \<lparr>content = [TextContent
                 ''Child MCP server restarted successfully. New capabilities have been loaded.''],
               isError = None\<rparr>))
        (\<lambda>error. then_do
           (block [
              update (\<lambda>s. s\<lparr>restartInProgress := False\<rparr>),
              logger ERROR ''Failed to restart child server''
                (ErrorMessage (errorMessage error)) None])
           (\<lambda>_. returns
              \<lparr>content = [TextContent
                 (''Failed to restart child server: '' @ errorMessage error)],
               isError = Some True\<rparr>)))"

definition start :: "env \<Rightarrow> unit async" where
  "start e = block [
     (\<lambda>s. logger INFO ''Starting Reloaderoo''
             (ChildCommand (childCommand (config s)) (childArgs (config s))) None s),
     startChildServer e,
     then_do (await (serverConnect e)) (\<lambda>_. update (\<lambda>s. s\<lparr>serverConnected := True\<rparr>)),
     logger INFO ''Reloaderoo started successfully'' NoData None]"

definition stop :: "env \<Rightarrow> unit async" where
  "stop e = (\<lambda>s.
     if isShuttingDown s then returns () s
     else block [
       update (\<lambda>s. s\<lparr>isShuttingDown := True\<rparr>),
       logger INFO ''Stopping Reloaderoo'' NoData None,
       try_catch
         (block [
            stopChildServer e,
            then_do (await (serverClose e)) (\<lambda>_. update (\<lambda>s. s\<lparr>serverConnected := False\<rparr>))])
         (\<lambda>error. logger ERROR ''Error during shutdown'' (ErrorData error) None)] s)"

text \<open>\<open>handleShutdown\<close>; \<open>process.exit(0)\<close> is recorded in \<open>exitCode\<close>.\<close>

datatype signal = SIGINT | SIGTERM

fun signal_name :: "signal \<Rightarrow> string" where
  "signal_name SIGINT = ''SIGINT''"
| "signal_name SIGTERM = ''SIGTERM''"

definition handleShutdown :: "env \<Rightarrow> signal \<Rightarrow> unit async" where
  "handleShutdown e sig = block [
     logger INFO (''Received '' @ signal_name sig @ '', shutting down gracefully'') NoData None,
     stop e,
     update (\<lambda>s. s\<lparr>exitCode := Some 0\<rparr>)]"

section \<open>Calls that overlap\<close>

text \<open>
  The methods above describe a call that runs alone. An \<open>async\<close> function, however, runs
  only up to its next \<open>await\<close>. There it is suspended, other callbacks may run on the same
  object, and the function goes on, in the state it then finds, once the awaited promise
  has settled. This section describes the methods of the class in that way: each field is
  read where the source reads it, so that after an \<open>await\<close> a method sees what other calls
  have done to the object in the meantime.

  What a call can be waiting for: an operation on a child client or a child transport
  (named by their identities), an upstream send, the connection or the closing of the
  upstream server, or the completion of an \<open>async\<close> method of the class that the call has
  invoked itself.
\<close>

datatype awaited =
    ClientClose nat
  | TransportClose transport
  | ClientConnect nat transport
  | ListTools nat
  | ServerNotification notification
  | ServerConnect
  | ServerClose
  | Completion

text \<open>
  How an awaited promise settles. Of the values the promises are fulfilled with the class
  uses one only, the \<open>tools\<close> field of the answer to the tool-list query, which may be
  missing.
\<close>

datatype settlement = Fulfilment "tool list option" | Rejection error

text \<open>
  An \<open>async\<close> function as the steps it takes: it returns, throws, reads the object,
  assigns to fields of the object, or awaits a promise and goes on according to its
  settlement.
\<close>

datatype 'a task =
    Return 'a
  | Throw error
  | Get "proxy \<Rightarrow> 'a task"
  | Put "proxy \<Rightarrow> proxy" "'a task"
  | Await awaited "settlement \<Rightarrow> 'a task"

text \<open>\<open>m\<close> followed by \<open>f\<close>, which receives the value of \<open>m\<close>.\<close>

primrec and_then :: "'a task \<Rightarrow> ('a \<Rightarrow> 'b task) \<Rightarrow> 'b task" where
  "and_then (Return x) f = f x"
| "and_then (Throw err) f = Throw err"
| "and_then (Get k) f = Get (\<lambda>s. and_then (k s) f)"
| "and_then (Put g t) f = Put g (and_then t f)"
| "and_then (Await p k) f = Await p (\<lambda>a. and_then (k a) f)"

text \<open>\<open>try { m } catch (error) { h error }\<close>\<close>

primrec catching :: "'a task \<Rightarrow> (error \<Rightarrow> 'a task) \<Rightarrow> 'a task" where
  "catching (Return x) h = Return x"
| "catching (Throw err) h = h err"
| "catching (Get k) h = Get (\<lambda>s. catching (k s) h)"
| "catching (Put g t) h = Put g (catching t h)"
| "catching (Await p k) h = Await p (\<lambda>a. catching (k a) h)"

definition assign :: "(proxy \<Rightarrow> proxy) \<Rightarrow> unit task" where
  "assign f = Put f (Return ())"

text \<open>\<open>await p\<close> as a statement, and as an expression whose value is used.\<close>

definition await_for :: "awaited \<Rightarrow> unit task" where
  "await_for p =
     Await p (\<lambda>a. case a of Fulfilment v \<Rightarrow> Return () | Rejection err \<Rightarrow> Throw err)"

definition await_result :: "awaited \<Rightarrow> tool list option task" where
  "await_result p =
     Await p (\<lambda>a. case a of Fulfilment v \<Rightarrow> Return v | Rejection err \<Rightarrow> Throw err)"

text \<open>
  \<open>await this.m()\<close> for an \<open>async\<close> method \<open>m\<close> of the class: \<open>m\<close> runs within the caller up
  to its own first \<open>await\<close>, and when \<open>m\<close> has completed the caller is suspended once more,
  until the promise that \<open>m\<close> has returned is processed; then it receives what \<open>m\<close> has
  returned or thrown.
\<close>

definition await_call :: "'a task \<Rightarrow> 'a task" where
  "await_call m =
     catching (and_then m (\<lambda>x. Await Completion (\<lambda>a. Return x)))
       (\<lambda>err. Await Completion (\<lambda>a. Throw err))"

fun statements :: "unit task list \<Rightarrow> unit task" where
  "statements [] = Return ()"
| "statements (m # ms) = and_then m (\<lambda>_. statements ms)"

definition provided :: "bool \<Rightarrow> unit task \<Rightarrow> unit task" where
  "provided b m = (if b then m else Return ())"

definition logging :: "level \<Rightarrow> string \<Rightarrow> log_data \<Rightarrow> string option \<Rightarrow> unit task" where
  "logging lvl msg d ctx = assign (\<lambda>s. s\<lparr>logs := logs s @ [Log lvl msg d ctx]\<rparr>)"

text \<open>
  What the runtime contributes to the stderr probe of \<open>startChildServer\<close>: the shape of
  the transport objects it creates (all are built by the same constructor from the same
  parameters), and the message of the \<open>TypeError\<close> raised by reading a property of \<open>null\<close>,
  which is what the probe does when another call has meanwhile reset \<open>childTransport\<close>.
\<close>

record runtime =
  transportShape :: stderr_access
  nullRead :: string

subsection \<open>The methods\<close>

definition updateHandlersWithChildClient_task :: "unit task" where
  "updateHandlersWithChildClient_task = statements [
     assign (\<lambda>s. s\<lparr>toolHandlerClient := childClient s\<rparr>),
     assign (\<lambda>s. s\<lparr>toolHandlerTools := childTools s\<rparr>),
     assign (\<lambda>s. s\<lparr>resourceHandlerClient := childClient s\<rparr>),
     assign (\<lambda>s. s\<lparr>promptHandlerClient := childClient s\<rparr>),
     assign (\<lambda>s. s\<lparr>completionHandlerClient := childClient s\<rparr>),
     assign (\<lambda>s. s\<lparr>coreHandlerClient := childClient s\<rparr>)]"

text \<open>
  After the client has been closed, \<open>childClient\<close> is reset whatever it holds by then, and
  likewise \<open>childTransport\<close>.
\<close>

definition stopChildServer_task :: "unit task" where
  "stopChildServer_task = statements [
     Get (\<lambda>s. case childClient s of
        None \<Rightarrow> Return ()
      | Some client \<Rightarrow> statements [
          catching (await_for (ClientClose client))
            (\<lambda>error. logging DEBUG ''Error closing child client'' (ErrorData error) None),
          assign (\<lambda>s. s\<lparr>childClient := None\<rparr>),
          assign (\<lambda>s. s\<lparr>childTools := []\<rparr>),
          updateHandlersWithChildClient_task]),
     Get (\<lambda>s. case childTransport s of
        None \<Rightarrow> Return ()
      | Some transport \<Rightarrow> statements [
          catching (await_for (TransportClose transport))
            (\<lambda>error. logging DEBUG ''Error closing child transport'' (ErrorData error) None),
          assign (\<lambda>s. s\<lparr>childTransport := None\<rparr>)]),
     assign (\<lambda>s. s\<lparr>childTools := []\<rparr>)]"

definition notification_task :: "notification \<Rightarrow> unit task" where
  "notification_task n =
     and_then (await_for (ServerNotification n))
       (\<lambda>_. assign (\<lambda>s. s\<lparr>sent := sent s @ [n]\<rparr>))"

definition notifyCapabilityChanges_task :: "unit task" where
  "notifyCapabilityChanges_task =
     catching (statements [
        notification_task TOOLS_LIST_CHANGED,
        notification_task PROMPTS_LIST_CHANGED,
        notification_task RESOURCES_LIST_CHANGED,
        logging DEBUG ''Sent capability change notifications'' NoData None])
       (\<lambda>error. logging DEBUG ''Error sending notifications'' (ErrorData error) None)"

text \<open>
  \<open>restartInProgress\<close> is read when the answer to the tool-list query is processed, and
  it is cleared once the notifications have been dealt with.
\<close>

definition mirrorChildCapabilities_task :: "unit task" where
  "mirrorChildCapabilities_task = Get (\<lambda>s.
     case childClient s of
       None \<Rightarrow> Throw (JsError ''Child client not connected'')
     | Some client \<Rightarrow>
         catching
           (and_then (await_result (ListTools client)) (\<lambda>toolsResult. statements [
              assign (\<lambda>s. s\<lparr>childTools :=
                              (case toolsResult of None \<Rightarrow> [] | Some ts \<Rightarrow> ts)\<rparr>),
              updateHandlersWithChildClient_task,
              Get (\<lambda>s. logging DEBUG ''Mirrored child capabilities''
                      (ToolSummary (length (childTools s)) (map name (childTools s))) None),
              Get (\<lambda>s. provided (restartInProgress s) (statements [
                 await_call notifyCapabilityChanges_task,
                 assign (\<lambda>s. s\<lparr>restartInProgress := False\<rparr>)]))]))
           (\<lambda>error. and_then
              (logging ERROR ''Failed to mirror child capabilities'' (ErrorData error) None)
              (\<lambda>_. if isMethodNotFound error
                    then statements [
                      logging WARN
                        ''Child server does not support tools/list - continuing with empty tool list''
                        NoData None,
                      assign (\<lambda>s. s\<lparr>childTools := []\<rparr>),
                      updateHandlersWithChildClient_task,
                      Get (\<lambda>s. provided (restartInProgress s)
                              (assign (\<lambda>s. s\<lparr>restartInProgress := False\<rparr>)))]
                    else Throw error)))"

text \<open>The stderr probe reads \<open>childTransport\<close> after the handshake.\<close>

definition captureStderr_task :: "runtime \<Rightarrow> unit task" where
  "captureStderr_task rt =
     catching
       (Get (\<lambda>s. case childTransport s of
          None \<Rightarrow> Throw (JsError (nullRead rt))
        | Some transport \<Rightarrow>
            (case transportShape rt of
               StderrStream \<Rightarrow>
                 logging DEBUG ''Found child stderr stream, setting up capture'' NoData
                   (Some ''RELOADEROO'')
             | ProcessStderr \<Rightarrow>
                 logging DEBUG ''Found child process stderr, setting up capture'' NoData
                   (Some ''RELOADEROO'')
             | ProcessOnly message \<Rightarrow> statements [
                 logging DEBUG ''Found _process property, setting up stderr capture'' NoData
                   (Some ''RELOADEROO''),
                 Throw (JsError message)]
             | NoAccess transportKeys \<Rightarrow>
                 logging DEBUG ''No stderr access available from transport''
                   (StderrProbe False False transportKeys) (Some ''RELOADEROO''))))
       (\<lambda>error. logging DEBUG ''Error setting up stderr capture'' (ErrorData error)
                   (Some ''RELOADEROO''))"

text \<open>
  The handshake is started on the client and the transport that the two assignments
  before it have just stored, within the same turn; the other branch of the case
  distinction is not reached.
\<close>

definition startChildServer_task :: "runtime \<Rightarrow> unit task" where
  "startChildServer_task rt = statements [
     await_call stopChildServer_task,
     Get (\<lambda>s. logging INFO ''Starting child MCP server''
             (ChildCommand (childCommand (config s)) (childArgs (config s))) None),
     assign (\<lambda>s. s\<lparr>childTransport :=
                      Some (Transport (allocated s) (childCommand (config s))
                              (childArgs (config s)) (environment (config s))),
                    allocated := Suc (allocated s)\<rparr>),
     assign (\<lambda>s. s\<lparr>childClient := Some (allocated s), allocated := Suc (allocated s)\<rparr>),
     Get (\<lambda>s. case (childClient s, childTransport s) of
        (Some client, Some transport) \<Rightarrow> await_for (ClientConnect client transport)
      | _ \<Rightarrow> Throw (JsError (nullRead rt))),
     captureStderr_task rt,
     await_call mirrorChildCapabilities_task,
     logging INFO ''Connected to child MCP server successfully'' NoData None]"

definition handleRestartServer_task :: "runtime \<Rightarrow> js \<Rightarrow> call_tool_result task" where
  "handleRestartServer_task rt arguments =
     (let force = js_or (optional_get arguments ''force'') (Bool False) in
      catching
        (and_then
           (statements [
              logging INFO (''Executing '' @ RESTART_SERVER @ '' tool'') (ForceFlag force) None,
              assign (\<lambda>s. s\<lparr>restartInProgress := True\<rparr>),
              await_call (startChildServer_task rt)])
           (\<lambda>_. Return
              \<lparr>content = [TextContent
                 ''Child MCP server restarted successfully. New capabilities have been loaded.''],
               isError = None\<rparr>))
        (\<lambda>error. and_then
           (statements [
              assign (\<lambda>s. s\<lparr>restartInProgress := False\<rparr>),
              logging ERROR ''Failed to restart child server''
                (ErrorMessage (errorMessage error)) None])
           (\<lambda>_. Return
              \<lparr>content = [TextContent
                 (''Failed to restart child server: '' @ errorMessage error)],
               isError = Some True\<rparr>)))"

definition start_task :: "runtime \<Rightarrow> unit task" where
  "start_task rt = statements [
     Get (\<lambda>s. logging INFO ''Starting Reloaderoo''
             (ChildCommand (childCommand (config s)) (childArgs (config s))) None),
     await_call (startChildServer_task rt),
     and_then (await_for ServerConnect) (\<lambda>_. assign (\<lambda>s. s\<lparr>serverConnected := True\<rparr>)),
     logging INFO ''Reloaderoo started successfully'' NoData None]"

definition stop_task :: "unit task" where
  "stop_task = Get (\<lambda>s.
     if isShuttingDown s then Return ()
     else statements [
       assign (\<lambda>s. s\<lparr>isShuttingDown := True\<rparr>),
       logging INFO ''Stopping Reloaderoo'' NoData None,
       catching
         (statements [
            await_call stopChildServer_task,
            and_then (await_for ServerClose)
              (\<lambda>_. assign (\<lambda>s. s\<lparr>serverConnected := False\<rparr>))])
         (\<lambda>error. logging ERROR ''Error during shutdown'' (ErrorData error) None)])"

definition handleShutdown_task :: "signal \<Rightarrow> unit task" where
  "handleShutdown_task sig = statements [
     logging INFO (''Received '' @ signal_name sig @ '', shutting down gracefully'') NoData None,
     await_call stop_task,
     assign (\<lambda>s. s\<lparr>exitCode := Some 0\<rparr>)]"

subsection \<open>One turn of a call\<close>

text \<open>
  A call has returned, has thrown, or is suspended at an \<open>await\<close>, where it holds what
  it is waiting for and how it goes on. \<open>run\<close> takes a call from where it stands to its
  next \<open>await\<close> or to its end.
\<close>

datatype 'a paused = Done 'a | Raised error | Waiting awaited "settlement \<Rightarrow> 'a task"

primrec run :: "'a task \<Rightarrow> proxy \<Rightarrow> 'a paused \<times> proxy" where
  "run (Return x) s = (Done x, s)"
| "run (Throw err) s = (Raised err, s)"
| "run (Get k) s = run (k s) s"
| "run (Put f t) s = run t (f s)"
| "run (Await p k) s = (Waiting p k, s)"

subsection \<open>A call that runs alone\<close>

text \<open>
  The call is given, at each \<open>await\<close>, the settlement that the environment \<open>e\<close> holds for
  the awaited promise, at once and with no other callback running in between; a promise
  that \<open>e\<close> leaves unsettled leaves the call suspended for good. The promise of a method
  of the class itself is fulfilled.
\<close>

fun without_value :: "unit settled \<Rightarrow> tool list option settled" where
  "without_value (Resolved u) = Resolved None"
| "without_value (Rejected err) = Rejected err"
| "without_value Unsettled = Unsettled"

fun settles :: "env \<Rightarrow> awaited \<Rightarrow> tool list option settled" where
  "settles e (ClientClose client) = without_value (clientClose e)"
| "settles e (TransportClose transport) = without_value (transportClose e)"
| "settles e (ClientConnect client transport) = without_value (clientConnect e)"
| "settles e (ListTools client) = listTools e"
| "settles e (ServerNotification TOOLS_LIST_CHANGED) = without_value (toolsNotification e)"
| "settles e (ServerNotification PROMPTS_LIST_CHANGED) = without_value (promptsNotification e)"
| "settles e (ServerNotification RESOURCES_LIST_CHANGED) =
     without_value (resourcesNotification e)"
| "settles e ServerConnect = without_value (serverConnect e)"
| "settles e ServerClose = without_value (serverClose e)"
| "settles e Completion = Resolved None"

primrec alone :: "env \<Rightarrow> 'a task \<Rightarrow> 'a async" where
  "alone e (Return x) = returns x"
| "alone e (Throw err) = throws err"
| "alone e (Get k) = (\<lambda>s. alone e (k s) s)"
| "alone e (Put f t) = (\<lambda>s. alone e t (f s))"
| "alone e (Await p k) = (\<lambda>s.
     case settles e p of
       Resolved v \<Rightarrow> alone e (k (Fulfilment v)) s
     | Rejected err \<Rightarrow> alone e (k (Rejection err)) s
     | Unsettled \<Rightarrow> (Pending, s))"

subsection \<open>The proxy and its calls\<close>

text \<open>
  The object together with the calls made on it so far, in the order in which they were
  made; a call is referred to by its position. What a call returns is the result of the
  restart tool, or nothing.
\<close>

datatype reply = ToolResult call_tool_result | Void

record system =
  object :: proxy
  calls :: "reply paused list"

definition idle :: "proxy \<Rightarrow> system" where
  "idle s = \<lparr>object = s, calls = []\<rparr>"

text \<open>A new call runs its first turn at once.\<close>

definition invoke :: "reply task \<Rightarrow> system \<Rightarrow> system" where
  "invoke t sys =
     (case run t (object sys) of (r, s') \<Rightarrow> \<lparr>object = s', calls = calls sys @ [r]\<rparr>)"

text \<open>A suspended call goes on when the promise it awaits has settled.\<close>

definition resume :: "nat \<Rightarrow> settlement \<Rightarrow> system \<Rightarrow> system" where
  "resume i a sys =
     (if i < length (calls sys)
      then (case calls sys ! i of
              Waiting p k \<Rightarrow>
                (case run (k a) (object sys) of
                   (r, s') \<Rightarrow> \<lparr>object = s', calls = (calls sys)[i := r]\<rparr>)
            | _ \<Rightarrow> sys)
      else sys)"

text \<open>
  What makes code of the class run, once the proxy has been started:
  \<^item> a call of the restart tool: the constructor hands \<open>handleRestartServer\<close> to the tool
    handler, which calls it with the arguments of the request;
  \<^item> \<open>SIGINT\<close> and \<open>SIGTERM\<close>, for which \<open>setupErrorHandling\<close> installs \<open>handleShutdown\<close>;
  \<^item> an error of the upstream server, for which it installs \<open>server.onerror\<close>;
  \<^item> output of the child on stderr, where the shape of the transport lets the probe of
    \<open>startChildServer\<close> attach its \<open>'data'\<close> listener; the event carries the text of the
    chunk after \<open>data.toString().trim()\<close>;
  \<^item> the settlement of a promise that a suspended call awaits.

  The class sets no \<open>onclose\<close> or \<open>onerror\<close> callback on the child client or the child
  transport, attaches no \<open>'exit'\<close> listener to the child process and starts no timer.
  An exit of the child therefore reaches the class through the events above only:
  promises that suspended calls await on that child may be rejected. After \<open>process.exit\<close>
  nothing runs any more.
\<close>

datatype event =
    RestartRequest js
  | Signal signal
  | ServerError error
  | StderrOutput string
  | Settled nat settlement

definition deliver :: "runtime \<Rightarrow> event \<Rightarrow> system \<Rightarrow> system" where
  "deliver rt ev sys =
     (if exitCode (object sys) \<noteq> None then sys
      else case ev of
        RestartRequest arguments \<Rightarrow>
          invoke (and_then (handleRestartServer_task rt arguments) (\<lambda>r. Return (ToolResult r)))
            sys
      | Signal sig \<Rightarrow> invoke (and_then (handleShutdown_task sig) (\<lambda>_. Return Void)) sys
      | ServerError error \<Rightarrow>
          sys\<lparr>object := snd (run (logging ERROR ''Proxy server error'' (ErrorData error) None)
                               (object sys))\<rparr>
      | StderrOutput output \<Rightarrow>
          (if transportShape rt = StderrStream \<or> transportShape rt = ProcessStderr
           then sys\<lparr>object := snd (run (provided (output \<noteq> [])
                                          (logging INFO output NoData (Some ''CHILD-MCP'')))
                                    (object sys))\<rparr>
           else sys)
      | Settled i a \<Rightarrow> resume i a sys)"

fun exec :: "runtime \<Rightarrow> event list \<Rightarrow> system \<Rightarrow> system" where
  "exec rt [] sys = sys"
| "exec rt (ev # evs) sys = exec rt evs (deliver rt ev sys)"

section \<open>The tool handler\<close>



section \<open>Notions used in the statements\<close>


text \<open>The two results the restart tool can produce.\<close>

definition restartSucceeded :: call_tool_result where
  "restartSucceeded =
     \<lparr>content = [TextContent
        ''Child MCP server restarted successfully. New capabilities have been loaded.''],
      isError = None\<rparr>"

definition restartFailed :: "error \<Rightarrow> call_tool_result" where
  "restartFailed err =
     \<lparr>content = [TextContent (''Failed to restart child server: '' @ errorMessage err)],
      isError = Some True\<rparr>"

text \<open>
  A method \<open>m\<close> is insensitive to a relation \<open>R\<close> on states when, started in related states, it
  completes in the same way and leaves related states.
\<close>

definition insensitive :: "(proxy \<Rightarrow> proxy \<Rightarrow> bool) \<Rightarrow> 'a async \<Rightarrow> bool" where
  "insensitive R m = (\<forall>s t. R s t \<longrightarrow> fst (m s) = fst (m t) \<and> R (snd (m s)) (snd (m t)))"

text \<open>Two states that differ at most in the value of \<open>force\<close> recorded in their logs.\<close>

fun redact :: "log_entry \<Rightarrow> log_entry" where
  "redact (Log lvl msg (ForceFlag v) ctx) = Log lvl msg (ForceFlag Undefined) ctx"
| "redact (Log lvl msg d ctx) = Log lvl msg d ctx"

definition same_but_force :: "proxy \<Rightarrow> proxy \<Rightarrow> bool" where
  "same_but_force s t = (s\<lparr>logs := map redact (logs s)\<rparr> = t\<lparr>logs := map redact (logs t)\<rparr>)"

text \<open>
  Two states that differ at most in the restart policy of their configuration:
  \<open>autoRestart\<close>, \<open>maxRestarts\<close>, \<open>restartDelay\<close> and \<open>restartTimeout\<close>.
\<close>

definition without_policy :: "proxy \<Rightarrow> proxy" where
  "without_policy s =
     s\<lparr>config := (config s)\<lparr>autoRestart := False, maxRestarts := 0, restartDelay := 0,
                             restartTimeout := 0\<rparr>\<rparr>"

definition same_but_policy :: "proxy \<Rightarrow> proxy \<Rightarrow> bool" where
  "same_but_policy s t = (without_policy s = without_policy t)"

text \<open>
  The copy of the tool cache held by the tool handler agrees with the cache of the class,
  and the cache is empty while there is no child client. The constructor establishes
  this, and every method of the class keeps it, also at the points where it is
  suspended.
\<close>

definition consistent :: "proxy \<Rightarrow> bool" where
  "consistent s \<longleftrightarrow>
     toolHandlerTools s = childTools s \<and> (childClient s = None \<longrightarrow> childTools s = [])"

text \<open>What a call is waiting for, and how it has ended.\<close>

fun waits_for :: "'a paused \<Rightarrow> awaited option" where
  "waits_for (Waiting p k) = Some p"
| "waits_for (Done x) = None"
| "waits_for (Raised err) = None"

fun result_of :: "'a paused \<Rightarrow> 'a completion" where
  "result_of (Done x) = Returned x"
| "result_of (Raised err) = Threw err"
| "result_of (Waiting p k) = Pending"

text \<open>
  The first thing the child teardown of \<open>startChildServer\<close> waits for: the closing of the
  client in place, else the closing of the transport in place, else its own completion.
\<close>

definition teardown_begins :: "proxy \<Rightarrow> awaited" where
  "teardown_begins s =
     (case childClient s of
        Some client \<Rightarrow> ClientClose client
      | None \<Rightarrow> (case childTransport s of
                   Some transport \<Rightarrow> TransportClose transport
                 | None \<Rightarrow> Completion))"

text \<open>
  A call \<open>t\<close> keeps the property \<open>I\<close> of the object, returns values in \<open>R\<close> only and throws
  errors in \<open>E\<close> only, however its promises settle and whatever else happens to the object
  between its turns, as long as \<open>I\<close> holds whenever a turn begins.
\<close>

primrec keeps :: "(proxy \<Rightarrow> bool) \<Rightarrow> ('a \<Rightarrow> bool) \<Rightarrow> (error \<Rightarrow> bool) \<Rightarrow> 'a task \<Rightarrow> bool" where
  "keeps I R E (Return x) = R x"
| "keeps I R E (Throw err) = E err"
| "keeps I R E (Get k) = (\<forall>s. I s \<longrightarrow> keeps I R E (k s))"
| "keeps I R E (Put f t) = ((\<forall>s. I s \<longrightarrow> I (f s)) \<and> keeps I R E t)"
| "keeps I R E (Await p k) = (\<forall>a. keeps I R E (k a))"

definition upholds ::
  "(proxy \<Rightarrow> bool) \<Rightarrow> ('a \<Rightarrow> bool) \<Rightarrow> (error \<Rightarrow> bool) \<Rightarrow> 'a paused \<Rightarrow> bool" where
  "upholds I R E c =
     (case c of
        Done x \<Rightarrow> R x
      | Raised err \<Rightarrow> E err
      | Waiting p k \<Rightarrow> \<forall>a. keeps I R E (k a))"

definition sound ::
  "(proxy \<Rightarrow> bool) \<Rightarrow> (reply \<Rightarrow> bool) \<Rightarrow> (error \<Rightarrow> bool) \<Rightarrow> system \<Rightarrow> bool" where
  "sound I R E sys \<longleftrightarrow> I (object sys) \<and> (\<forall>c \<in> set (calls sys). upholds I R E c)"

text \<open>A property of the object that no assignment of the shutdown path disturbs.\<close>

definition untouched_by_shutdown :: "(proxy \<Rightarrow> bool) \<Rightarrow> bool" where
  "untouched_by_shutdown I \<longleftrightarrow>
     (\<forall>s. I s \<longrightarrow>
        (\<forall>l. I (s\<lparr>logs := l\<rparr>)) \<and> I (s\<lparr>childClient := None\<rparr>) \<and>
        I (s\<lparr>childTransport := None\<rparr>) \<and> (\<forall>ts. I (s\<lparr>childTools := ts\<rparr>)) \<and>
        (\<forall>c. I (s\<lparr>toolHandlerClient := c\<rparr>)) \<and> (\<forall>ts. I (s\<lparr>toolHandlerTools := ts\<rparr>)) \<and>
        (\<forall>c. I (s\<lparr>resourceHandlerClient := c\<rparr>)) \<and> (\<forall>c. I (s\<lparr>promptHandlerClient := c\<rparr>)) \<and>
        (\<forall>c. I (s\<lparr>completionHandlerClient := c\<rparr>)) \<and> (\<forall>c. I (s\<lparr>coreHandlerClient := c\<rparr>)) \<and>
        (\<forall>b. I (s\<lparr>isShuttingDown := b\<rparr>)) \<and> (\<forall>b. I (s\<lparr>serverConnected := b\<rparr>)) \<and>
        (\<forall>x. I (s\<lparr>exitCode := x\<rparr>)))"

text \<open>What the calls of the proxy return.\<close>

definition restart_reply :: "reply \<Rightarrow> bool" where
  "restart_reply r \<longleftrightarrow>
     r = Void \<or> r = ToolResult restartSucceeded \<or> (\<exists>err. r = ToolResult (restartFailed err))"

text \<open>
  No child has been created since the state \<open>s\<close>: no identity has been handed out, and
  the client and the transport are the ones of \<open>s\<close>, unless they have been reset.
\<close>

definition same_child :: "proxy \<Rightarrow> proxy \<Rightarrow> bool" where
  "same_child s s' \<longleftrightarrow>
     allocated s' = allocated s \<and> (childClient s' = childClient s \<or> childClient s' = None) \<and>
     (childTransport s' = childTransport s \<or> childTransport s' = None)"

section \<open>A scenario\<close>

text \<open>
  The child \<open>node echo-server.js\<close> with the default restart policy, an environment in
  which every awaited call is fulfilled, and the proxy once \<open>start\<close> has completed there.
\<close>

definition echo_config :: proxy_config where
  "echo_config =
     \<lparr>childCommand = ''node'', childArgs = [''echo-server.js''], environment = [],
      workingDirectory = ''.'', autoRestart = True, maxRestarts = 3, restartDelay = 1000,
      restartTimeout = 30000\<rparr>"

definition echo_tool :: tool where
  "echo_tool = Tool ''echo'' ''Echo a message'' (Obj [(''type'', Str ''object'')])"

definition cooperative :: env where
  "cooperative =
     \<lparr>clientClose = Resolved (), transportClose = Resolved (), clientConnect = Resolved (),
      stderrAccess = NoAccess [''_serverParams''], listTools = Resolved (Some [echo_tool]),
      toolsNotification = Resolved (), promptsNotification = Resolved (),
      resourcesNotification = Resolved (), serverConnect = Resolved (),
      serverClose = Resolved ()\<rparr>"

definition running :: proxy where
  "running = snd (start cooperative (MCPProxy echo_config))"

text \<open>
  A runtime whose transports give the probe no access to stderr, as in the start of
  \<open>running\<close>; the settlement of a promise that is fulfilled without a value; and the
  proxy \<open>running\<close> after a call of the restart tool whose teardown has completed and
  whose handshake with the new child has not settled yet.
\<close>

definition node :: runtime where
  "node = \<lparr>transportShape = NoAccess [''_serverParams''],
            nullRead = ''Cannot read properties of null (reading '_stderrStream')''\<rparr>"

definition fulfilled :: settlement where
  "fulfilled = Fulfilment None"

definition first_restart_connecting :: system where
  "first_restart_connecting =
     exec node [RestartRequest Undefined, Settled 0 fulfilled, Settled 0 fulfilled,
                Settled 0 fulfilled] (idle running)"

section \<open>Facts about the methods\<close>

subsection \<open>Unfolding the combinators\<close>

lemmas async_defs = returns_def throws_def await_def update_def then_do_def try_catch_def
  when_do_def logger_def

lemma then_do_proj:
  "then_do m k s =
     (case fst (m s) of
        Returned x \<Rightarrow> k x (snd (m s))
      | Threw err \<Rightarrow> (Threw err, snd (m s))
      | Pending \<Rightarrow> (Pending, snd (m s)))"
  by (simp add: then_do_def split: prod.splits completion.splits)

lemma try_catch_proj:
  "try_catch m h s =
     (case fst (m s) of
        Returned x \<Rightarrow> (Returned x, snd (m s))
      | Threw err \<Rightarrow> h err (snd (m s))
      | Pending \<Rightarrow> (Pending, snd (m s)))"
  by (simp add: try_catch_def split: prod.splits completion.splits)

lemmas step_defs = returns_def throws_def await_def update_def when_do_def logger_def
  then_do_proj try_catch_proj

subsection \<open>\<open>stopChildServer\<close> and \<open>stop\<close>\<close>

lemma stopChildServer_never_throws:
  "fst (stopChildServer e s) \<noteq> Threw err"
  by (auto simp: stopChildServer_def updateHandlersWithChildClient_def async_defs
      split: settled.splits if_splits)

lemma stopChildServer_settles:
  "clientClose e \<noteq> Unsettled \<Longrightarrow> transportClose e \<noteq> Unsettled \<Longrightarrow>
     fst (stopChildServer e s) = Returned ()"
  by (auto simp: stopChildServer_def updateHandlersWithChildClient_def async_defs
      split: settled.splits if_splits)

lemma stopChildServer_returned:
  "fst (stopChildServer e s) = Returned u \<Longrightarrow>
     childTools (snd (stopChildServer e s)) = [] \<and>
     childClient (snd (stopChildServer e s)) = None \<and>
     childTransport (snd (stopChildServer e s)) = None"
  by (auto simp: stopChildServer_def updateHandlersWithChildClient_def async_defs
      split: settled.splits if_splits)

lemma stopChildServer_frame:
  "serverConnected (snd (stopChildServer e s)) = serverConnected s"
  "isShuttingDown (snd (stopChildServer e s)) = isShuttingDown s"
  "sent (snd (stopChildServer e s)) = sent s"
  "config (snd (stopChildServer e s)) = config s"
  "restartInProgress (snd (stopChildServer e s)) = restartInProgress s"
  "allocated (snd (stopChildServer e s)) = allocated s"
  "exitCode (snd (stopChildServer e s)) = exitCode s"
  by (auto simp: stopChildServer_def updateHandlersWithChildClient_def async_defs
      split: settled.splits if_splits)

lemma stopChildServer_handler_tools:
  "childClient s = None \<longrightarrow> toolHandlerTools s = [] \<Longrightarrow>
   fst (stopChildServer e s) = Returned u \<Longrightarrow>
     toolHandlerTools (snd (stopChildServer e s)) = []"
  by (auto simp: stopChildServer_def updateHandlersWithChildClient_def async_defs
      split: settled.splits if_splits)

lemma consistent_MCPProxy: "consistent (MCPProxy cfg)"
  by (simp add: consistent_def MCPProxy_def)

lemma stopChildServer_consistent:
  "consistent s \<Longrightarrow> consistent (snd (stopChildServer e s))"
  by (auto simp: consistent_def stopChildServer_def updateHandlersWithChildClient_def
      async_defs split: settled.splits if_splits)

lemma stop_sets_flag: "isShuttingDown (snd (stop e s))"
proof (cases "isShuttingDown s")
  case True
  then show ?thesis by (simp add: stop_def returns_def)
next
  case False
  let ?s0 = "s\<lparr>isShuttingDown := True,
                logs := logs s @ [Log INFO ''Stopping Reloaderoo'' NoData None]\<rparr>"
  obtain r s1 where sc: "stopChildServer e ?s0 = (r, s1)"
    by (cases "stopChildServer e ?s0")
  from stopChildServer_frame(2)[of e ?s0] sc have "isShuttingDown s1" by simp
  with False sc show ?thesis
    by (cases r; cases "serverClose e") (simp_all add: stop_def async_defs)
qed

lemma stop_allocated: "allocated (snd (stop e s)) = allocated s"
proof -
  let ?s0 = "s\<lparr>isShuttingDown := True,
                logs := logs s @ [Log INFO ''Stopping Reloaderoo'' NoData None]\<rparr>"
  from stopChildServer_frame(6)[of e ?s0] show ?thesis
    by (simp add: stop_def step_defs split: completion.splits settled.splits)
qed

lemma stop_consistent:
  assumes "consistent s"
  shows "consistent (snd (stop e s))"
proof -
  let ?s0 = "s\<lparr>isShuttingDown := True,
                logs := logs s @ [Log INFO ''Stopping Reloaderoo'' NoData None]\<rparr>"
  from assms have "consistent ?s0" by (simp add: consistent_def)
  from stopChildServer_consistent[OF this, of e] assms show ?thesis
    by (simp add: stop_def step_defs consistent_def split: completion.splits settled.splits)
qed

subsection \<open>\<open>captureStderr\<close> and \<open>notifyCapabilityChanges\<close>\<close>

lemma captureStderr_returns: "fst (captureStderr e s) = Returned ()"
  by (cases "stderrAccess e") (simp_all add: captureStderr_def async_defs)

lemma captureStderr_not_failed:
  "captureStderr e s = (r, s') \<Longrightarrow> r = Returned ()"
  using captureStderr_returns[of e s] by simp

lemma captureStderr_frame:
  "config (snd (captureStderr e s)) = config s"
  "serverConnected (snd (captureStderr e s)) = serverConnected s"
  "childClient (snd (captureStderr e s)) = childClient s"
  "childTransport (snd (captureStderr e s)) = childTransport s"
  "isShuttingDown (snd (captureStderr e s)) = isShuttingDown s"
  "restartInProgress (snd (captureStderr e s)) = restartInProgress s"
  "childTools (snd (captureStderr e s)) = childTools s"
  "toolHandlerClient (snd (captureStderr e s)) = toolHandlerClient s"
  "toolHandlerTools (snd (captureStderr e s)) = toolHandlerTools s"
  "sent (snd (captureStderr e s)) = sent s"
  "allocated (snd (captureStderr e s)) = allocated s"
  "exitCode (snd (captureStderr e s)) = exitCode s"
  by (cases "stderrAccess e"; simp add: captureStderr_def async_defs)+

lemma notifyCapabilityChanges_never_throws:
  "fst (notifyCapabilityChanges e s) \<noteq> Threw err"
  by (cases "toolsNotification e"; cases "promptsNotification e";
      cases "resourcesNotification e")
     (simp_all add: notifyCapabilityChanges_def notification_def async_defs)

lemma notify_not_thrown:
  "notifyCapabilityChanges e s = (Threw err, s') \<Longrightarrow> False"
  using notifyCapabilityChanges_never_throws[of e s err] by simp

lemma notifyCapabilityChanges_frame:
  "config (snd (notifyCapabilityChanges e s)) = config s"
  "serverConnected (snd (notifyCapabilityChanges e s)) = serverConnected s"
  "childClient (snd (notifyCapabilityChanges e s)) = childClient s"
  "childTransport (snd (notifyCapabilityChanges e s)) = childTransport s"
  "isShuttingDown (snd (notifyCapabilityChanges e s)) = isShuttingDown s"
  "restartInProgress (snd (notifyCapabilityChanges e s)) = restartInProgress s"
  "childTools (snd (notifyCapabilityChanges e s)) = childTools s"
  "toolHandlerClient (snd (notifyCapabilityChanges e s)) = toolHandlerClient s"
  "toolHandlerTools (snd (notifyCapabilityChanges e s)) = toolHandlerTools s"
  "allocated (snd (notifyCapabilityChanges e s)) = allocated s"
  "exitCode (snd (notifyCapabilityChanges e s)) = exitCode s"
  by (cases "toolsNotification e"; cases "promptsNotification e";
      cases "resourcesNotification e";
      simp add: notifyCapabilityChanges_def notification_def async_defs)+

lemmas notify_facts = notifyCapabilityChanges_never_throws notifyCapabilityChanges_frame

lemma notifyCapabilityChanges_sent:
  "sent (snd (notifyCapabilityChanges e s)) \<in>
     {sent s, sent s @ [TOOLS_LIST_CHANGED],
      sent s @ [TOOLS_LIST_CHANGED, PROMPTS_LIST_CHANGED],
      sent s @ [TOOLS_LIST_CHANGED, PROMPTS_LIST_CHANGED, RESOURCES_LIST_CHANGED]}"
  by (cases "toolsNotification e"; cases "promptsNotification e";
      cases "resourcesNotification e")
     (simp_all add: notifyCapabilityChanges_def notification_def async_defs)

lemma notifyCapabilityChanges_all_sent:
  "toolsNotification e = Resolved () \<Longrightarrow> promptsNotification e = Resolved () \<Longrightarrow>
   resourcesNotification e = Resolved () \<Longrightarrow>
     fst (notifyCapabilityChanges e s) = Returned () \<and>
     sent (snd (notifyCapabilityChanges e s)) =
       sent s @ [TOOLS_LIST_CHANGED, PROMPTS_LIST_CHANGED, RESOURCES_LIST_CHANGED]"
  by (simp add: notifyCapabilityChanges_def notification_def async_defs)

subsection \<open>\<open>mirrorChildCapabilities\<close>\<close>

text \<open>The method in closed form, with the notification step left as a call.\<close>

lemma mirror_eq:
  "mirrorChildCapabilities e s =
     (if childClient s = None then (Threw (JsError ''Child client not connected''), s)
      else case listTools e of
        Resolved toolsResult \<Rightarrow>
          (let ts = (case toolsResult of None \<Rightarrow> [] | Some ts \<Rightarrow> ts);
               s1 = s\<lparr>childTools := ts, toolHandlerClient := childClient s,
                      toolHandlerTools := ts, resourceHandlerClient := childClient s,
                      promptHandlerClient := childClient s,
                      completionHandlerClient := childClient s,
                      coreHandlerClient := childClient s,
                      logs := logs s @ [Log DEBUG ''Mirrored child capabilities''
                        (ToolSummary (length ts) (map name ts)) None]\<rparr>
           in if restartInProgress s
              then (case fst (notifyCapabilityChanges e s1) of
                      Returned u \<Rightarrow>
                        (Returned (),
                         (snd (notifyCapabilityChanges e s1))\<lparr>restartInProgress := False\<rparr>)
                    | Threw err \<Rightarrow> (Threw err, snd (notifyCapabilityChanges e s1))
                    | Pending \<Rightarrow> (Pending, snd (notifyCapabilityChanges e s1)))
              else (Returned (), s1))
      | Rejected err \<Rightarrow>
          (let s1 = s\<lparr>logs := logs s @ [Log ERROR ''Failed to mirror child capabilities''
                        (ErrorData err) None]\<rparr>
           in if isMethodNotFound err
              then (Returned (),
                    s1\<lparr>childTools := [], toolHandlerClient := childClient s,
                       toolHandlerTools := [], resourceHandlerClient := childClient s,
                       promptHandlerClient := childClient s,
                       completionHandlerClient := childClient s,
                       coreHandlerClient := childClient s,
                       restartInProgress := False,
                       logs := logs s1 @ [Log WARN
                         ''Child server does not support tools/list - continuing with empty tool list''
                         NoData None]\<rparr>)
              else (Threw err, s1))
      | Unsettled \<Rightarrow> (Pending, s))"
  by (auto simp: mirrorChildCapabilities_def updateHandlersWithChildClient_def async_defs
      Let_def split: settled.splits prod.splits completion.splits dest: notify_not_thrown)

lemma mirror_frame:
  "config (snd (mirrorChildCapabilities e s)) = config s"
  "serverConnected (snd (mirrorChildCapabilities e s)) = serverConnected s"
  "childClient (snd (mirrorChildCapabilities e s)) = childClient s"
  "childTransport (snd (mirrorChildCapabilities e s)) = childTransport s"
  "isShuttingDown (snd (mirrorChildCapabilities e s)) = isShuttingDown s"
  "allocated (snd (mirrorChildCapabilities e s)) = allocated s"
  "exitCode (snd (mirrorChildCapabilities e s)) = exitCode s"
  by (simp_all add: mirror_eq Let_def notify_facts split: settled.splits completion.splits)

lemma mirror_sent:
  "sent (snd (mirrorChildCapabilities e s)) \<in>
     {sent s, sent s @ [TOOLS_LIST_CHANGED],
      sent s @ [TOOLS_LIST_CHANGED, PROMPTS_LIST_CHANGED],
      sent s @ [TOOLS_LIST_CHANGED, PROMPTS_LIST_CHANGED, RESOURCES_LIST_CHANGED]}"
proof (cases "listTools e")
  case (Resolved toolsResult)
  let ?ts = "case toolsResult of None \<Rightarrow> [] | Some ts \<Rightarrow> ts"
  let ?s1 = "s\<lparr>childTools := ?ts, toolHandlerClient := childClient s,
                toolHandlerTools := ?ts, resourceHandlerClient := childClient s,
                promptHandlerClient := childClient s,
                completionHandlerClient := childClient s,
                coreHandlerClient := childClient s,
                logs := logs s @ [Log DEBUG ''Mirrored child capabilities''
                  (ToolSummary (length ?ts) (map name ?ts)) None]\<rparr>"
  from notifyCapabilityChanges_sent[of e ?s1] Resolved show ?thesis
    by (simp add: mirror_eq Let_def split: completion.splits)
qed (simp_all add: mirror_eq Let_def)

lemma mirror_quiet:
  "\<not> restartInProgress s \<Longrightarrow> sent (snd (mirrorChildCapabilities e s)) = sent s"
  by (simp add: mirror_eq Let_def split: settled.splits)

lemma mirror_rejected:
  "childClient s = Some c \<Longrightarrow> listTools e = Rejected err \<Longrightarrow>
     (if isMethodNotFound err
      then fst (mirrorChildCapabilities e s) = Returned () \<and>
           childTools (snd (mirrorChildCapabilities e s)) = [] \<and>
           toolHandlerTools (snd (mirrorChildCapabilities e s)) = [] \<and>
           toolHandlerClient (snd (mirrorChildCapabilities e s)) = Some c \<and>
           \<not> restartInProgress (snd (mirrorChildCapabilities e s)) \<and>
           sent (snd (mirrorChildCapabilities e s)) = sent s
      else fst (mirrorChildCapabilities e s) = Threw err \<and>
           restartInProgress (snd (mirrorChildCapabilities e s)) = restartInProgress s)"
  by (simp add: mirror_eq Let_def)


lemma mirror_resolved:
  "childClient s = Some c \<Longrightarrow> listTools e = Resolved r \<Longrightarrow>
   toolsNotification e = Resolved () \<Longrightarrow> promptsNotification e = Resolved () \<Longrightarrow>
   resourcesNotification e = Resolved () \<Longrightarrow>
     fst (mirrorChildCapabilities e s) = Returned () \<and>
     sent (snd (mirrorChildCapabilities e s)) =
       (if restartInProgress s
        then sent s @ [TOOLS_LIST_CHANGED, PROMPTS_LIST_CHANGED, RESOURCES_LIST_CHANGED]
        else sent s)"
  by (simp add: mirror_eq Let_def notifyCapabilityChanges_all_sent)

lemma mirror_unsettled:
  "childClient s = Some c \<Longrightarrow> listTools e = Unsettled \<Longrightarrow>
     mirrorChildCapabilities e s = (Pending, s)"
  by (simp add: mirror_eq)

lemma mirror_consistent:
  "consistent s \<Longrightarrow> consistent (snd (mirrorChildCapabilities e s))"
  by (auto simp: consistent_def mirror_eq Let_def notify_facts
      split: settled.splits completion.splits)

subsection \<open>\<open>startChildServer\<close>\<close>

text \<open>
  The method in closed form: the teardown, the two objects created, the handshake, the
  stderr probe (which always completes) and the capability query.
\<close>

lemma startChildServer_eq:
  "startChildServer e s =
     (let s1 = snd (stopChildServer e s);
          s2 = s1\<lparr>logs := logs s1 @ [Log INFO ''Starting child MCP server''
                   (ChildCommand (childCommand (config s1)) (childArgs (config s1))) None],
                 childTransport :=
                   Some (Transport (allocated s1) (childCommand (config s1))
                           (childArgs (config s1)) (environment (config s1))),
                 childClient := Some (Suc (allocated s1)),
                 allocated := Suc (Suc (allocated s1))\<rparr>;
          s3 = snd (captureStderr e s2);
          s4 = snd (mirrorChildCapabilities e s3)
      in case fst (stopChildServer e s) of
           Returned u \<Rightarrow>
             (case clientConnect e of
                Resolved v \<Rightarrow>
                  (case fst (mirrorChildCapabilities e s3) of
                     Returned w \<Rightarrow>
                       (Returned (),
                        s4\<lparr>logs := logs s4 @
                          [Log INFO ''Connected to child MCP server successfully'' NoData
                             None]\<rparr>)
                   | Threw err \<Rightarrow> (Threw err, s4)
                   | Pending \<Rightarrow> (Pending, s4))
              | Rejected err \<Rightarrow> (Threw err, s2)
              | Unsettled \<Rightarrow> (Pending, s2))
         | Threw err \<Rightarrow> (Threw err, s1)
         | Pending \<Rightarrow> (Pending, s1))"
  by (auto simp: startChildServer_def async_defs Let_def
      split: settled.splits prod.splits completion.splits dest: captureStderr_not_failed)

lemma startChildServer_frame:
  "config (snd (startChildServer e s)) = config s"
  "serverConnected (snd (startChildServer e s)) = serverConnected s"
  "isShuttingDown (snd (startChildServer e s)) = isShuttingDown s"
  "exitCode (snd (startChildServer e s)) = exitCode s"
  by (simp_all add: startChildServer_eq Let_def mirror_frame captureStderr_frame
      stopChildServer_frame split: settled.splits completion.splits)

lemma startChildServer_sent:
  "sent (snd (startChildServer e s)) \<in>
     {sent s, sent s @ [TOOLS_LIST_CHANGED],
      sent s @ [TOOLS_LIST_CHANGED, PROMPTS_LIST_CHANGED],
      sent s @ [TOOLS_LIST_CHANGED, PROMPTS_LIST_CHANGED, RESOURCES_LIST_CHANGED]}"
proof -
  define s1 where "s1 = snd (stopChildServer e s)"
  define s2 where
    "s2 = s1\<lparr>logs := logs s1 @ [Log INFO ''Starting child MCP server''
                   (ChildCommand (childCommand (config s1)) (childArgs (config s1))) None],
              childTransport :=
                Some (Transport (allocated s1) (childCommand (config s1))
                        (childArgs (config s1)) (environment (config s1))),
              childClient := Some (Suc (allocated s1)),
              allocated := Suc (Suc (allocated s1))\<rparr>"
  define s3 where "s3 = snd (captureStderr e s2)"
  have "sent s3 = sent s"
    by (simp add: s3_def s2_def s1_def captureStderr_frame stopChildServer_frame)
  with mirror_sent[of e s3]
  have "sent (snd (mirrorChildCapabilities e s3)) \<in>
     {sent s, sent s @ [TOOLS_LIST_CHANGED],
      sent s @ [TOOLS_LIST_CHANGED, PROMPTS_LIST_CHANGED],
      sent s @ [TOOLS_LIST_CHANGED, PROMPTS_LIST_CHANGED, RESOURCES_LIST_CHANGED]}"
    by simp
  then show ?thesis
    unfolding s3_def s2_def s1_def
    by (simp add: startChildServer_eq Let_def captureStderr_frame stopChildServer_frame
        split: settled.splits completion.splits)
qed

lemma startChildServer_quiet:
  "\<not> restartInProgress s \<Longrightarrow> sent (snd (startChildServer e s)) = sent s"
  by (simp add: startChildServer_eq Let_def mirror_quiet captureStderr_frame
      stopChildServer_frame split: settled.splits completion.splits)

lemma startChildServer_connect_rejected:
  "clientClose e \<noteq> Unsettled \<Longrightarrow> transportClose e \<noteq> Unsettled \<Longrightarrow>
   clientConnect e = Rejected err \<Longrightarrow>
     fst (startChildServer e s) = Threw err \<and>
     restartInProgress (snd (startChildServer e s)) = restartInProgress s"
  by (simp add: startChildServer_eq Let_def stopChildServer_settles stopChildServer_frame)

lemma startChildServer_connect_unsettled:
  "clientClose e \<noteq> Unsettled \<Longrightarrow> transportClose e \<noteq> Unsettled \<Longrightarrow>
   clientConnect e = Unsettled \<Longrightarrow>
     fst (startChildServer e s) = Pending \<and>
     restartInProgress (snd (startChildServer e s)) = restartInProgress s \<and>
     childClient (snd (startChildServer e s)) = Some (Suc (allocated s)) \<and>
     childTools (snd (startChildServer e s)) = []"
  by (simp add: startChildServer_eq Let_def stopChildServer_settles stopChildServer_frame
      stopChildServer_returned)

lemma startChildServer_tools_rejected:
  "clientClose e \<noteq> Unsettled \<Longrightarrow> transportClose e \<noteq> Unsettled \<Longrightarrow>
   clientConnect e = Resolved () \<Longrightarrow> listTools e = Rejected err \<Longrightarrow>
     (if isMethodNotFound err
      then fst (startChildServer e s) = Returned () \<and>
           childTools (snd (startChildServer e s)) = [] \<and>
           toolHandlerTools (snd (startChildServer e s)) = [] \<and>
           childClient (snd (startChildServer e s)) = Some (Suc (allocated s)) \<and>
           toolHandlerClient (snd (startChildServer e s)) = Some (Suc (allocated s)) \<and>
           \<not> restartInProgress (snd (startChildServer e s)) \<and>
           sent (snd (startChildServer e s)) = sent s
      else fst (startChildServer e s) = Threw err)"
proof -
  assume a: "clientClose e \<noteq> Unsettled" "transportClose e \<noteq> Unsettled"
    "clientConnect e = Resolved ()" "listTools e = Rejected err"
  define s1 where "s1 = snd (stopChildServer e s)"
  define s2 where
    "s2 = s1\<lparr>logs := logs s1 @ [Log INFO ''Starting child MCP server''
                   (ChildCommand (childCommand (config s1)) (childArgs (config s1))) None],
              childTransport :=
                Some (Transport (allocated s1) (childCommand (config s1))
                        (childArgs (config s1)) (environment (config s1))),
              childClient := Some (Suc (allocated s1)),
              allocated := Suc (Suc (allocated s1))\<rparr>"
  define s3 where "s3 = snd (captureStderr e s2)"
  have c: "childClient s3 = Some (Suc (allocated s))" and "sent s3 = sent s"
    by (simp_all add: s3_def s2_def s1_def captureStderr_frame stopChildServer_frame)
  with mirror_rejected[OF c a(4)] mirror_frame(3)[of e s3] a show ?thesis
    unfolding s3_def s2_def s1_def
    by (simp add: startChildServer_eq Let_def stopChildServer_settles split: if_splits)
qed

lemma startChildServer_resolved:
  "clientClose e \<noteq> Unsettled \<Longrightarrow> transportClose e \<noteq> Unsettled \<Longrightarrow>
   clientConnect e = Resolved () \<Longrightarrow> listTools e = Resolved r \<Longrightarrow>
   toolsNotification e = Resolved () \<Longrightarrow> promptsNotification e = Resolved () \<Longrightarrow>
   resourcesNotification e = Resolved () \<Longrightarrow>
     fst (startChildServer e s) = Returned () \<and>
     sent (snd (startChildServer e s)) =
       (if restartInProgress s
        then sent s @ [TOOLS_LIST_CHANGED, PROMPTS_LIST_CHANGED, RESOURCES_LIST_CHANGED]
        else sent s)"
proof -
  assume a: "clientClose e \<noteq> Unsettled" "transportClose e \<noteq> Unsettled"
    "clientConnect e = Resolved ()" "listTools e = Resolved r"
    "toolsNotification e = Resolved ()" "promptsNotification e = Resolved ()"
    "resourcesNotification e = Resolved ()"
  define s1 where "s1 = snd (stopChildServer e s)"
  define s2 where
    "s2 = s1\<lparr>logs := logs s1 @ [Log INFO ''Starting child MCP server''
                   (ChildCommand (childCommand (config s1)) (childArgs (config s1))) None],
              childTransport :=
                Some (Transport (allocated s1) (childCommand (config s1))
                        (childArgs (config s1)) (environment (config s1))),
              childClient := Some (Suc (allocated s1)),
              allocated := Suc (Suc (allocated s1))\<rparr>"
  define s3 where "s3 = snd (captureStderr e s2)"
  have c: "childClient s3 = Some (Suc (allocated s))" and "sent s3 = sent s"
    and "restartInProgress s3 = restartInProgress s"
    by (simp_all add: s3_def s2_def s1_def captureStderr_frame stopChildServer_frame)
  with mirror_resolved[OF c a(4-7)] a show ?thesis
    unfolding s3_def s2_def s1_def
    by (simp add: startChildServer_eq Let_def stopChildServer_settles split: if_splits)
qed

lemma startChildServer_run:
  obtains (run) s2 s3 where
    "startChildServer e s =
       (case fst (stopChildServer e s) of
          Returned u \<Rightarrow>
            (case clientConnect e of
               Resolved v \<Rightarrow>
                 (case fst (mirrorChildCapabilities e s3) of
                    Returned w \<Rightarrow>
                      (Returned (),
                       (snd (mirrorChildCapabilities e s3))
                         \<lparr>logs := logs (snd (mirrorChildCapabilities e s3)) @
                            [Log INFO ''Connected to child MCP server successfully'' NoData
                               None]\<rparr>)
                  | Threw err \<Rightarrow> (Threw err, snd (mirrorChildCapabilities e s3))
                  | Pending \<Rightarrow> (Pending, snd (mirrorChildCapabilities e s3)))
             | Rejected err \<Rightarrow> (Threw err, s2)
             | Unsettled \<Rightarrow> (Pending, s2))
        | Threw err \<Rightarrow> (Threw err, snd (stopChildServer e s))
        | Pending \<Rightarrow> (Pending, snd (stopChildServer e s)))"
    "childClient s2 = Some (Suc (allocated s))" "childClient s3 = Some (Suc (allocated s))"
    "childTools s2 = childTools (snd (stopChildServer e s))"
    "toolHandlerTools s2 = toolHandlerTools (snd (stopChildServer e s))"
    "childTools s3 = childTools (snd (stopChildServer e s))"
    "toolHandlerTools s3 = toolHandlerTools (snd (stopChildServer e s))"
proof -
  define s1 where "s1 = snd (stopChildServer e s)"
  define s2 where
    "s2 = s1\<lparr>logs := logs s1 @ [Log INFO ''Starting child MCP server''
                   (ChildCommand (childCommand (config s1)) (childArgs (config s1))) None],
              childTransport :=
                Some (Transport (allocated s1) (childCommand (config s1))
                        (childArgs (config s1)) (environment (config s1))),
              childClient := Some (Suc (allocated s1)),
              allocated := Suc (Suc (allocated s1))\<rparr>"
  define s3 where "s3 = snd (captureStderr e s2)"
  show thesis
  proof (rule that[of s3 s2])
    show "startChildServer e s =
       (case fst (stopChildServer e s) of
          Returned u \<Rightarrow>
            (case clientConnect e of
               Resolved v \<Rightarrow>
                 (case fst (mirrorChildCapabilities e s3) of
                    Returned w \<Rightarrow>
                      (Returned (),
                       (snd (mirrorChildCapabilities e s3))
                         \<lparr>logs := logs (snd (mirrorChildCapabilities e s3)) @
                            [Log INFO ''Connected to child MCP server successfully'' NoData
                               None]\<rparr>)
                  | Threw err \<Rightarrow> (Threw err, snd (mirrorChildCapabilities e s3))
                  | Pending \<Rightarrow> (Pending, snd (mirrorChildCapabilities e s3)))
             | Rejected err \<Rightarrow> (Threw err, s2)
             | Unsettled \<Rightarrow> (Pending, s2))
        | Threw err \<Rightarrow> (Threw err, snd (stopChildServer e s))
        | Pending \<Rightarrow> (Pending, snd (stopChildServer e s)))"
      unfolding s3_def s2_def s1_def by (simp only: startChildServer_eq Let_def)
  qed (simp_all add: s3_def s2_def s1_def captureStderr_frame stopChildServer_frame)
qed


lemma startChildServer_installs:
  assumes "clientClose e \<noteq> Unsettled" and "transportClose e \<noteq> Unsettled"
  shows "childClient (snd (startChildServer e s)) = Some (Suc (allocated s))"
proof (cases rule: startChildServer_run[of e s])
  case (run s2 s3)
  from run(2,3) mirror_frame(3)[of e s3] stopChildServer_settles[OF assms, of s]
  show ?thesis
    by (simp add: run(1) split: completion.splits settled.splits)
qed

lemma startChildServer_tools_unsettled:
  assumes "clientClose e \<noteq> Unsettled" and "transportClose e \<noteq> Unsettled"
    and "clientConnect e = Resolved ()" and "listTools e = Unsettled"
  shows "fst (startChildServer e s) = Pending"
proof (cases rule: startChildServer_run[of e s])
  case (run s2 s3)
  from mirror_unsettled[OF run(3) assms(4)] stopChildServer_settles[OF assms(1,2), of s]
    assms(3)
  show ?thesis by (simp add: run(1))
qed

lemma startChildServer_consistent:
  assumes "consistent s"
  shows "consistent (snd (startChildServer e s))"
proof (cases rule: startChildServer_run[of e s])
  case (run s2 s3)
  from stopChildServer_consistent[OF assms, of e]
  have c1: "consistent (snd (stopChildServer e s))" .
  with run(2-7) have c2: "consistent s2" and c3: "consistent s3"
    by (simp_all add: consistent_def)
  from mirror_consistent[OF c3, of e]
  have c4: "consistent (snd (mirrorChildCapabilities e s3))" .
  then have "consistent ((snd (mirrorChildCapabilities e s3))
      \<lparr>logs := logs (snd (mirrorChildCapabilities e s3)) @
         [Log INFO ''Connected to child MCP server successfully'' NoData None]\<rparr>)"
    by (simp add: consistent_def)
  with c1 c2 c4 show ?thesis
    by (simp add: run(1) split: completion.splits settled.splits)
qed

subsection \<open>\<open>handleRestartServer\<close>\<close>

lemma handleRestartServer_eq:
  "handleRestartServer e a s =
     (case startChildServer e
             (s\<lparr>logs := logs s @ [Log INFO ''Executing restart_server tool''
                   (ForceFlag (js_or (optional_get a ''force'') (Bool False))) None],
                restartInProgress := True\<rparr>) of
        (Returned u, s1) \<Rightarrow> (Returned restartSucceeded, s1)
      | (Threw err, s1) \<Rightarrow>
          (Returned (restartFailed err),
           s1\<lparr>restartInProgress := False,
              logs := logs s1 @ [Log ERROR ''Failed to restart child server''
                (ErrorMessage (errorMessage err)) None]\<rparr>)
      | (Pending, s1) \<Rightarrow> (Pending, s1))"
  by (simp add: handleRestartServer_def Let_def RESTART_SERVER_def restartSucceeded_def
      restartFailed_def async_defs split: prod.splits completion.splits)

lemma handleRestartServer_never_throws:
  "fst (handleRestartServer e a s) \<noteq> Threw err"
  by (simp add: handleRestartServer_eq split: prod.splits completion.splits)

lemma handleRestartServer_ignores_flag:
  "handleRestartServer e a (s\<lparr>restartInProgress := b\<rparr>) = handleRestartServer e a s"
  by (simp add: handleRestartServer_eq)

lemma handleRestartServer_results:
  "fst (handleRestartServer e a s) = Returned res \<Longrightarrow>
     res = restartSucceeded \<or> (\<exists>err. res = restartFailed err)"
  by (auto simp: handleRestartServer_eq split: prod.splits completion.splits)

lemma handleRestartServer_run:
  obtains (run) s0 where
    "handleRestartServer e a s =
       (case fst (startChildServer e s0) of
          Returned u \<Rightarrow> (Returned restartSucceeded, snd (startChildServer e s0))
        | Threw err \<Rightarrow>
            (Returned (restartFailed err),
             (snd (startChildServer e s0))
               \<lparr>restartInProgress := False,
                logs := logs (snd (startChildServer e s0)) @
                  [Log ERROR ''Failed to restart child server''
                     (ErrorMessage (errorMessage err)) None]\<rparr>)
        | Pending \<Rightarrow> (Pending, snd (startChildServer e s0)))"
    "restartInProgress s0" "sent s0 = sent s" "allocated s0 = allocated s"
    "config s0 = config s" "serverConnected s0 = serverConnected s"
    "isShuttingDown s0 = isShuttingDown s" "exitCode s0 = exitCode s"
proof -
  define s0 where
    "s0 = s\<lparr>logs := logs s @ [Log INFO ''Executing restart_server tool''
                 (ForceFlag (js_or (optional_get a ''force'') (Bool False))) None],
             restartInProgress := True\<rparr>"
  show thesis
  proof (rule that[of s0])
    show "handleRestartServer e a s =
       (case fst (startChildServer e s0) of
          Returned u \<Rightarrow> (Returned restartSucceeded, snd (startChildServer e s0))
        | Threw err \<Rightarrow>
            (Returned (restartFailed err),
             (snd (startChildServer e s0))
               \<lparr>restartInProgress := False,
                logs := logs (snd (startChildServer e s0)) @
                  [Log ERROR ''Failed to restart child server''
                     (ErrorMessage (errorMessage err)) None]\<rparr>)
        | Pending \<Rightarrow> (Pending, snd (startChildServer e s0)))"
      unfolding s0_def
      by (simp add: handleRestartServer_eq split: prod.splits completion.splits)
  qed (simp_all add: s0_def)
qed

lemma handleRestartServer_frame:
  "serverConnected (snd (handleRestartServer e a s)) = serverConnected s"
  "config (snd (handleRestartServer e a s)) = config s"
  "isShuttingDown (snd (handleRestartServer e a s)) = isShuttingDown s"
  "exitCode (snd (handleRestartServer e a s)) = exitCode s"
proof -
  have "serverConnected (snd (handleRestartServer e a s)) = serverConnected s \<and>
    config (snd (handleRestartServer e a s)) = config s \<and>
    isShuttingDown (snd (handleRestartServer e a s)) = isShuttingDown s \<and>
    exitCode (snd (handleRestartServer e a s)) = exitCode s"
  proof (cases rule: handleRestartServer_run[of e a s])
    case (run s0)
    from run(5-8) startChildServer_frame[of e s0] show ?thesis
      by (simp add: run(1) split: completion.splits)
  qed
  then show "serverConnected (snd (handleRestartServer e a s)) = serverConnected s"
    "config (snd (handleRestartServer e a s)) = config s"
    "isShuttingDown (snd (handleRestartServer e a s)) = isShuttingDown s"
    "exitCode (snd (handleRestartServer e a s)) = exitCode s"
    by simp_all
qed

lemma handleRestartServer_sent:
  "sent (snd (handleRestartServer e a s)) \<in>
     {sent s, sent s @ [TOOLS_LIST_CHANGED],
      sent s @ [TOOLS_LIST_CHANGED, PROMPTS_LIST_CHANGED],
      sent s @ [TOOLS_LIST_CHANGED, PROMPTS_LIST_CHANGED, RESOURCES_LIST_CHANGED]}"
proof (cases rule: handleRestartServer_run[of e a s])
  case (run s0)
  from run(3) startChildServer_sent[of e s0] show ?thesis
    by (simp add: run(1) split: completion.splits)
qed

lemma handleRestartServer_outcomes:
  assumes "clientClose e \<noteq> Unsettled" and "transportClose e \<noteq> Unsettled"
  shows
    "clientConnect e = Rejected err \<Longrightarrow>
       fst (handleRestartServer e a s) = Returned (restartFailed err) \<and>
       \<not> restartInProgress (snd (handleRestartServer e a s))"
    "clientConnect e = Unsettled \<Longrightarrow>
       fst (handleRestartServer e a s) = Pending \<and>
       restartInProgress (snd (handleRestartServer e a s)) \<and>
       childClient (snd (handleRestartServer e a s)) = Some (Suc (allocated s))"
    "clientConnect e = Resolved () \<Longrightarrow> listTools e = Rejected err \<Longrightarrow>
       \<not> isMethodNotFound err \<Longrightarrow>
       fst (handleRestartServer e a s) = Returned (restartFailed err) \<and>
       \<not> restartInProgress (snd (handleRestartServer e a s))"
    "clientConnect e = Resolved () \<Longrightarrow> listTools e = Rejected err \<Longrightarrow>
       isMethodNotFound err \<Longrightarrow>
       fst (handleRestartServer e a s) = Returned restartSucceeded \<and>
       childTools (snd (handleRestartServer e a s)) = [] \<and>
       toolHandlerTools (snd (handleRestartServer e a s)) = [] \<and>
       sent (snd (handleRestartServer e a s)) = sent s"
    "clientConnect e = Resolved () \<Longrightarrow> listTools e = Resolved r \<Longrightarrow>
       toolsNotification e = Resolved () \<Longrightarrow> promptsNotification e = Resolved () \<Longrightarrow>
       resourcesNotification e = Resolved () \<Longrightarrow>
       fst (handleRestartServer e a s) = Returned restartSucceeded \<and>
       sent (snd (handleRestartServer e a s)) =
         sent s @ [TOOLS_LIST_CHANGED, PROMPTS_LIST_CHANGED, RESOURCES_LIST_CHANGED]"
proof -
  obtain s0 where
    eq: "handleRestartServer e a s =
       (case fst (startChildServer e s0) of
          Returned u \<Rightarrow> (Returned restartSucceeded, snd (startChildServer e s0))
        | Threw err \<Rightarrow>
            (Returned (restartFailed err),
             (snd (startChildServer e s0))
               \<lparr>restartInProgress := False,
                logs := logs (snd (startChildServer e s0)) @
                  [Log ERROR ''Failed to restart child server''
                     (ErrorMessage (errorMessage err)) None]\<rparr>)
        | Pending \<Rightarrow> (Pending, snd (startChildServer e s0)))"
    and f: "restartInProgress s0" "sent s0 = sent s" "allocated s0 = allocated s"
    by (rule handleRestartServer_run)
  show "clientConnect e = Rejected err \<Longrightarrow>
       fst (handleRestartServer e a s) = Returned (restartFailed err) \<and>
       \<not> restartInProgress (snd (handleRestartServer e a s))"
    using startChildServer_connect_rejected[OF assms, of err s0] by (simp add: eq)
  show "clientConnect e = Unsettled \<Longrightarrow>
       fst (handleRestartServer e a s) = Pending \<and>
       restartInProgress (snd (handleRestartServer e a s)) \<and>
       childClient (snd (handleRestartServer e a s)) = Some (Suc (allocated s))"
    using startChildServer_connect_unsettled[OF assms, of s0] f by (simp add: eq)
  show "clientConnect e = Resolved () \<Longrightarrow> listTools e = Rejected err \<Longrightarrow>
       \<not> isMethodNotFound err \<Longrightarrow>
       fst (handleRestartServer e a s) = Returned (restartFailed err) \<and>
       \<not> restartInProgress (snd (handleRestartServer e a s))"
    using startChildServer_tools_rejected[OF assms, of err s0] by (simp add: eq)
  show "clientConnect e = Resolved () \<Longrightarrow> listTools e = Rejected err \<Longrightarrow>
       isMethodNotFound err \<Longrightarrow>
       fst (handleRestartServer e a s) = Returned restartSucceeded \<and>
       childTools (snd (handleRestartServer e a s)) = [] \<and>
       toolHandlerTools (snd (handleRestartServer e a s)) = [] \<and>
       sent (snd (handleRestartServer e a s)) = sent s"
    using startChildServer_tools_rejected[OF assms, of err s0] f by (simp add: eq)
  show "clientConnect e = Resolved () \<Longrightarrow> listTools e = Resolved r \<Longrightarrow>
       toolsNotification e = Resolved () \<Longrightarrow> promptsNotification e = Resolved () \<Longrightarrow>
       resourcesNotification e = Resolved () \<Longrightarrow>
       fst (handleRestartServer e a s) = Returned restartSucceeded \<and>
       sent (snd (handleRestartServer e a s)) =
         sent s @ [TOOLS_LIST_CHANGED, PROMPTS_LIST_CHANGED, RESOURCES_LIST_CHANGED]"
    using startChildServer_resolved[OF assms, of r s0] f by (simp add: eq)
qed


lemma handleRestartServer_installs:
  assumes "clientClose e \<noteq> Unsettled" and "transportClose e \<noteq> Unsettled"
  shows "childClient (snd (handleRestartServer e a s)) = Some (Suc (allocated s))"
proof (cases rule: handleRestartServer_run[of e a s])
  case (run s0)
  from startChildServer_installs[OF assms, of s0] run(4) show ?thesis
    by (simp add: run(1) split: completion.splits)
qed

lemma handleRestartServer_tools_unsettled:
  assumes "clientClose e \<noteq> Unsettled" and "transportClose e \<noteq> Unsettled"
    and "clientConnect e = Resolved ()" and "listTools e = Unsettled"
  shows "fst (handleRestartServer e a s) = Pending"
proof (cases rule: handleRestartServer_run[of e a s])
  case (run s0)
  from startChildServer_tools_unsettled[OF assms, of s0] show ?thesis
    by (simp add: run(1))
qed

lemma handleRestartServer_consistent:
  assumes "consistent s"
  shows "consistent (snd (handleRestartServer e a s))"
proof -
  let ?s0 = "s\<lparr>logs := logs s @ [Log INFO ''Executing restart_server tool''
                 (ForceFlag (js_or (optional_get a ''force'') (Bool False))) None],
               restartInProgress := True\<rparr>"
  from assms have "consistent ?s0" by (simp add: consistent_def)
  from startChildServer_consistent[OF this, of e] show ?thesis
    by (auto simp: handleRestartServer_eq consistent_def split: prod.splits completion.splits)
qed

subsection \<open>\<open>start\<close>\<close>

lemma start_run:
  obtains (run) s0 where
    "start e s =
       (case fst (startChildServer e s0) of
          Returned u \<Rightarrow>
            (case serverConnect e of
               Resolved v \<Rightarrow>
                 (Returned (),
                  (snd (startChildServer e s0))
                    \<lparr>serverConnected := True,
                     logs := logs (snd (startChildServer e s0)) @
                       [Log INFO ''Reloaderoo started successfully'' NoData None]\<rparr>)
             | Rejected err \<Rightarrow> (Threw err, snd (startChildServer e s0))
             | Unsettled \<Rightarrow> (Pending, snd (startChildServer e s0)))
        | Threw err \<Rightarrow> (Threw err, snd (startChildServer e s0))
        | Pending \<Rightarrow> (Pending, snd (startChildServer e s0)))"
    "restartInProgress s0 = restartInProgress s" "sent s0 = sent s"
    "allocated s0 = allocated s" "consistent s \<longrightarrow> consistent s0"
proof -
  define s0 where
    "s0 = s\<lparr>logs := logs s @ [Log INFO ''Starting Reloaderoo''
                 (ChildCommand (childCommand (config s)) (childArgs (config s))) None]\<rparr>"
  show thesis
  proof (rule that[of s0])
    show "start e s =
       (case fst (startChildServer e s0) of
          Returned u \<Rightarrow>
            (case serverConnect e of
               Resolved v \<Rightarrow>
                 (Returned (),
                  (snd (startChildServer e s0))
                    \<lparr>serverConnected := True,
                     logs := logs (snd (startChildServer e s0)) @
                       [Log INFO ''Reloaderoo started successfully'' NoData None]\<rparr>)
             | Rejected err \<Rightarrow> (Threw err, snd (startChildServer e s0))
             | Unsettled \<Rightarrow> (Pending, snd (startChildServer e s0)))
        | Threw err \<Rightarrow> (Threw err, snd (startChildServer e s0))
        | Pending \<Rightarrow> (Pending, snd (startChildServer e s0)))"
      unfolding s0_def
      by (simp add: start_def step_defs split: completion.splits settled.splits)
  qed (simp_all add: s0_def consistent_def)
qed

lemma start_fresh_sends_nothing:
  "sent (snd (start e (MCPProxy cfg))) = []"
proof (cases rule: start_run[of e "MCPProxy cfg"])
  case (run s0)
  then have "\<not> restartInProgress s0" and "sent s0 = []"
    by (simp_all add: MCPProxy_def)
  with startChildServer_quiet[of s0 e] show ?thesis
    by (simp add: run(1) split: completion.splits settled.splits)
qed


lemma start_tools_rejected:
  assumes "clientClose e \<noteq> Unsettled" and "transportClose e \<noteq> Unsettled"
    and "clientConnect e = Resolved ()" and "listTools e = Rejected err"
  shows "if isMethodNotFound err
         then serverConnect e = Resolved () \<longrightarrow> fst (start e s) = Returned ()
         else fst (start e s) = Threw err"
proof (cases rule: start_run[of e s])
  case (run s0)
  from startChildServer_tools_rejected[OF assms, of s0] show ?thesis
    by (simp add: run(1) split: if_splits)
qed

lemma start_consistent:
  assumes "consistent s"
  shows "consistent (snd (start e s))"
proof (cases rule: start_run[of e s])
  case (run s0)
  with assms have "consistent s0" by simp
  from startChildServer_consistent[OF this, of e] show ?thesis
    by (simp add: run(1) consistent_def split: completion.splits settled.splits)
qed

section \<open>Insensitivity\<close>

text \<open>The two relations, field by field.\<close>

lemma config_policy_iff:
  "(c::proxy_config)\<lparr>autoRestart := False, maxRestarts := 0, restartDelay := 0, restartTimeout := 0\<rparr> =
   d\<lparr>autoRestart := False, maxRestarts := 0, restartDelay := 0, restartTimeout := 0\<rparr> \<longleftrightarrow>
     childCommand c = childCommand d \<and> childArgs c = childArgs d \<and>
     environment c = environment d \<and> workingDirectory c = workingDirectory d"
  by (cases c; cases d) auto

lemma same_but_policy_iff:
  "same_but_policy s t \<longleftrightarrow>
     childCommand (config s) = childCommand (config t) \<and>
     childArgs (config s) = childArgs (config t) \<and>
     environment (config s) = environment (config t) \<and>
     workingDirectory (config s) = workingDirectory (config t) \<and>
     serverConnected s = serverConnected t \<and>
     childClient s = childClient t \<and>
     childTransport s = childTransport t \<and>
     isShuttingDown s = isShuttingDown t \<and>
     restartInProgress s = restartInProgress t \<and>
     childTools s = childTools t \<and>
     toolHandlerClient s = toolHandlerClient t \<and>
     toolHandlerTools s = toolHandlerTools t \<and>
     resourceHandlerClient s = resourceHandlerClient t \<and>
     promptHandlerClient s = promptHandlerClient t \<and>
     completionHandlerClient s = completionHandlerClient t \<and>
     coreHandlerClient s = coreHandlerClient t \<and>
     sent s = sent t \<and>
     logs s = logs t \<and>
     allocated s = allocated t \<and>
     exitCode s = exitCode t"
  unfolding same_but_policy_def without_policy_def
  by (cases s; cases t) (auto simp: config_policy_iff)

lemma same_but_force_iff:
  "same_but_force s t \<longleftrightarrow>
     config s = config t \<and>
     serverConnected s = serverConnected t \<and>
     childClient s = childClient t \<and>
     childTransport s = childTransport t \<and>
     isShuttingDown s = isShuttingDown t \<and>
     restartInProgress s = restartInProgress t \<and>
     childTools s = childTools t \<and>
     toolHandlerClient s = toolHandlerClient t \<and>
     toolHandlerTools s = toolHandlerTools t \<and>
     resourceHandlerClient s = resourceHandlerClient t \<and>
     promptHandlerClient s = promptHandlerClient t \<and>
     completionHandlerClient s = completionHandlerClient t \<and>
     coreHandlerClient s = coreHandlerClient t \<and>
     sent s = sent t \<and>
     map redact (logs s) = map redact (logs t) \<and>
     allocated s = allocated t \<and>
     exitCode s = exitCode t"
  unfolding same_but_force_def
  by (cases s; cases t) auto

text \<open>Insensitivity is compositional.\<close>

lemma ins_returns: "insensitive R (returns x)"
  by (simp add: insensitive_def returns_def)

lemma ins_throws: "insensitive R (throws err)"
  by (simp add: insensitive_def throws_def)

lemma ins_await: "insensitive R (await p)"
  by (cases p) (simp_all add: insensitive_def await_def)

lemma ins_update: "(\<And>s t. R s t \<Longrightarrow> R (f s) (f t)) \<Longrightarrow> insensitive R (update f)"
  by (simp add: insensitive_def update_def)

lemma ins_then_do:
  assumes "insensitive R m" and "\<And>x. insensitive R (k x)"
  shows "insensitive R (then_do m k)"
  unfolding insensitive_def
proof (intro allI impI)
  fix s t assume "R s t"
  with assms(1) have eq: "fst (m s) = fst (m t)" and rel: "R (snd (m s)) (snd (m t))"
    by (auto simp: insensitive_def)
  obtain r s' where ms: "m s = (r, s')" by (cases "m s")
  obtain r' t' where mt: "m t = (r', t')" by (cases "m t")
  from eq rel ms mt have "r' = r" and "R s' t'" by simp_all
  with assms(2) ms mt
  show "fst (then_do m k s) = fst (then_do m k t) \<and>
        R (snd (then_do m k s)) (snd (then_do m k t))"
    by (cases r) (auto simp: then_do_def insensitive_def)
qed

lemma ins_try_catch:
  assumes "insensitive R m" and "\<And>err. insensitive R (h err)"
  shows "insensitive R (try_catch m h)"
  unfolding insensitive_def
proof (intro allI impI)
  fix s t assume "R s t"
  with assms(1) have eq: "fst (m s) = fst (m t)" and rel: "R (snd (m s)) (snd (m t))"
    by (auto simp: insensitive_def)
  obtain r s' where ms: "m s = (r, s')" by (cases "m s")
  obtain r' t' where mt: "m t = (r', t')" by (cases "m t")
  from eq rel ms mt have "r' = r" and "R s' t'" by simp_all
  with assms(2) ms mt
  show "fst (try_catch m h s) = fst (try_catch m h t) \<and>
        R (snd (try_catch m h s)) (snd (try_catch m h t))"
    by (cases r) (auto simp: try_catch_def insensitive_def)
qed

lemma ins_block_Nil: "insensitive R (block [])"
  by (simp add: ins_returns)

lemma ins_block_Cons:
  "insensitive R m \<Longrightarrow> insensitive R (block ms) \<Longrightarrow> insensitive R (block (m # ms))"
  by (simp add: ins_then_do)

lemma ins_when_do: "insensitive R m \<Longrightarrow> insensitive R (when_do b m)"
  by (simp add: when_do_def ins_returns)

lemma ins_if: "insensitive R a \<Longrightarrow> insensitive R b \<Longrightarrow> insensitive R (if c then a else b)"
  by simp

lemma ins_when_state:
  "(\<And>s t. R s t \<Longrightarrow> P s = P t) \<Longrightarrow> insensitive R m \<Longrightarrow>
     insensitive R (\<lambda>s. when_do (P s) m s)"
  by (simp add: insensitive_def when_do_def returns_def)

lemma ins_if_state:
  "(\<And>s t. R s t \<Longrightarrow> P s = P t) \<Longrightarrow> insensitive R a \<Longrightarrow> insensitive R b \<Longrightarrow>
     insensitive R (\<lambda>s. if P s then a s else b s)"
  by (simp add: insensitive_def)

lemma ins_logger:
  "(\<And>s t l. R s t \<Longrightarrow> R (s\<lparr>logs := logs s @ [l]\<rparr>) (t\<lparr>logs := logs t @ [l]\<rparr>)) \<Longrightarrow>
     insensitive R (logger lvl msg d ctx)"
  by (simp add: insensitive_def logger_def update_def)

lemma ins_logger_state:
  "(\<And>s t. R s t \<Longrightarrow> d s = d t) \<Longrightarrow>
   (\<And>s t l. R s t \<Longrightarrow> R (s\<lparr>logs := logs s @ [l]\<rparr>) (t\<lparr>logs := logs t @ [l]\<rparr>)) \<Longrightarrow>
     insensitive R (\<lambda>s. logger lvl msg (d s) ctx s)"
  by (simp add: insensitive_def logger_def update_def)

lemmas ins_intros = ins_returns ins_throws ins_await ins_then_do ins_try_catch
  ins_block_Nil ins_block_Cons ins_when_do ins_if ins_when_state ins_if_state

text \<open>No method reads the restart policy of the configuration.\<close>

lemma policy_logger: "insensitive same_but_policy (logger lvl msg d ctx)"
  by (rule ins_logger) (simp add: same_but_policy_iff)

lemma policy_updateHandlers: "insensitive same_but_policy updateHandlersWithChildClient"
  unfolding updateHandlersWithChildClient_def
  by (intro ins_intros ins_update) (simp_all add: same_but_policy_iff)

lemma policy_stopChildServer: "insensitive same_but_policy (stopChildServer e)"
  unfolding stopChildServer_def
  by (intro ins_intros ins_update ins_logger policy_updateHandlers)
     (simp_all add: same_but_policy_iff)

lemma policy_notification: "insensitive same_but_policy (notification p n)"
  unfolding notification_def
  by (intro ins_intros ins_update) (simp add: same_but_policy_iff)

lemma policy_notify: "insensitive same_but_policy (notifyCapabilityChanges e)"
  unfolding notifyCapabilityChanges_def
  by (intro ins_intros policy_notification policy_logger)

lemma policy_mirror: "insensitive same_but_policy (mirrorChildCapabilities e)"
  unfolding mirrorChildCapabilities_def
  by (intro ins_intros ins_update ins_logger_state policy_logger policy_updateHandlers
      policy_notify)
     (simp_all add: same_but_policy_iff)

lemma policy_captureStderr: "insensitive same_but_policy (captureStderr e)"
  unfolding captureStderr_def
  by (cases "stderrAccess e") (simp_all, (intro ins_intros policy_logger)+)

lemma policy_startChildServer: "insensitive same_but_policy (startChildServer e)"
  unfolding startChildServer_def
  by (intro ins_intros ins_update ins_logger_state policy_logger policy_stopChildServer
      policy_captureStderr policy_mirror)
     (simp_all add: same_but_policy_iff)

lemma policy_handleRestartServer: "insensitive same_but_policy (handleRestartServer e a)"
  unfolding handleRestartServer_def Let_def
  by (intro ins_intros ins_update policy_logger policy_startChildServer)
     (simp_all add: same_but_policy_iff)

lemma policy_stop: "insensitive same_but_policy (stop e)"
  unfolding stop_def
  by (intro ins_intros ins_update policy_logger policy_stopChildServer)
     (simp_all add: same_but_policy_iff)

text \<open>No method reads the log.\<close>

lemma force_logger: "insensitive same_but_force (logger lvl msg d ctx)"
  by (rule ins_logger) (simp add: same_but_force_iff)

lemma force_updateHandlers: "insensitive same_but_force updateHandlersWithChildClient"
  unfolding updateHandlersWithChildClient_def
  by (intro ins_intros ins_update) (simp_all add: same_but_force_iff)

lemma force_stopChildServer: "insensitive same_but_force (stopChildServer e)"
  unfolding stopChildServer_def
  by (intro ins_intros ins_update force_logger force_updateHandlers)
     (simp_all add: same_but_force_iff)

lemma force_notification: "insensitive same_but_force (notification p n)"
  unfolding notification_def
  by (intro ins_intros ins_update) (simp add: same_but_force_iff)

lemma force_notify: "insensitive same_but_force (notifyCapabilityChanges e)"
  unfolding notifyCapabilityChanges_def
  by (intro ins_intros force_notification force_logger)

lemma force_mirror: "insensitive same_but_force (mirrorChildCapabilities e)"
  unfolding mirrorChildCapabilities_def
  by (intro ins_intros ins_update ins_logger_state force_logger force_updateHandlers
      force_notify)
     (simp_all add: same_but_force_iff)

lemma force_captureStderr: "insensitive same_but_force (captureStderr e)"
  unfolding captureStderr_def
  by (cases "stderrAccess e") (simp_all, (intro ins_intros force_logger)+)

lemma force_startChildServer: "insensitive same_but_force (startChildServer e)"
  unfolding startChildServer_def
  by (intro ins_intros ins_update ins_logger_state force_logger force_stopChildServer
      force_captureStderr force_mirror)
     (simp_all add: same_but_force_iff)

section \<open>The scenario, evaluated\<close>

lemma running_eq:
  "running =
     \<lparr>config = echo_config, serverConnected = True,
      childClient = Some 1,
      childTransport = Some (Transport 0 ''node'' [''echo-server.js''] []),
      isShuttingDown = False, restartInProgress = False, childTools = [echo_tool],
      toolHandlerClient = Some 1, toolHandlerTools = [echo_tool],
      resourceHandlerClient = Some 1, promptHandlerClient = Some 1,
      completionHandlerClient = Some 1, coreHandlerClient = Some 1,
      sent = [],
      logs =
        [Log INFO ''Starting Reloaderoo'' (ChildCommand ''node'' [''echo-server.js'']) None,
         Log INFO ''Starting child MCP server'' (ChildCommand ''node'' [''echo-server.js''])
           None,
         Log DEBUG ''No stderr access available from transport''
           (StderrProbe False False [''_serverParams'']) (Some ''RELOADEROO''),
         Log DEBUG ''Mirrored child capabilities'' (ToolSummary 1 [''echo'']) None,
         Log INFO ''Connected to child MCP server successfully'' NoData None,
         Log INFO ''Reloaderoo started successfully'' NoData None],
      allocated = 2, exitCode = None\<rparr>"
  by (simp add: running_def start_def startChildServer_def stopChildServer_def
      mirrorChildCapabilities_def captureStderr_def updateHandlersWithChildClient_def
      MCPProxy_def cooperative_def echo_config_def echo_tool_def async_defs)

section \<open>A restart that settles\<close>





section \<open>The two descriptions of a method agree\<close>

text \<open>
  A method of the second description, run alone, does what the first description says.
\<close>

lemma alone_and_then:
  "alone e (and_then m f) = then_do (alone e m) (\<lambda>x. alone e (f x))"
  by (induction m) (auto simp: async_defs fun_eq_iff split: settled.splits)

lemma alone_catching:
  "alone e (catching m h) = try_catch (alone e m) (\<lambda>err. alone e (h err))"
  by (induction m) (auto simp: async_defs fun_eq_iff split: settled.splits)

lemma alone_assign: "alone e (assign f) = update f"
  by (simp add: assign_def update_def returns_def fun_eq_iff)

lemma alone_logging: "alone e (logging lvl msg d ctx) = logger lvl msg d ctx"
  by (simp add: logging_def logger_def alone_assign)

lemma alone_provided: "alone e (provided b m) = when_do b (alone e m)"
  by (simp add: provided_def when_do_def)

lemma alone_statements: "alone e (statements ms) = block (map (alone e) ms)"
  by (induction ms) (simp_all add: alone_and_then)

lemma then_do_returns: "then_do m returns = m"
  by (simp add: then_do_def returns_def fun_eq_iff split: prod.splits completion.splits)

lemma try_catch_throws: "try_catch m throws = m"
  by (simp add: try_catch_def throws_def fun_eq_iff split: prod.splits completion.splits)

lemma alone_await_call: "alone e (await_call m) = alone e m"
proof -
  have "alone e (await_call m) = try_catch (then_do (alone e m) returns) throws"
    by (simp add: await_call_def alone_catching alone_and_then fun_eq_iff)
  then show ?thesis by (simp add: then_do_returns try_catch_throws)
qed

lemma alone_await_unit:
  "settles e p = without_value q \<Longrightarrow> alone e (await_for p) = await q"
  by (cases q)
     (simp_all add: await_for_def await_def returns_def throws_def fun_eq_iff)

lemma alone_await_for:
  "alone e (await_for (ClientClose c)) = await (clientClose e)"
  "alone e (await_for (TransportClose t)) = await (transportClose e)"
  "alone e (await_for (ClientConnect c t)) = await (clientConnect e)"
  "alone e (await_for ServerConnect) = await (serverConnect e)"
  "alone e (await_for ServerClose) = await (serverClose e)"
  "alone e (await_for (ServerNotification TOOLS_LIST_CHANGED)) = await (toolsNotification e)"
  "alone e (await_for (ServerNotification PROMPTS_LIST_CHANGED)) =
     await (promptsNotification e)"
  "alone e (await_for (ServerNotification RESOURCES_LIST_CHANGED)) =
     await (resourcesNotification e)"
  by (simp_all add: alone_await_unit)

lemma alone_list_tools: "alone e (await_result (ListTools c)) = await (listTools e)"
  by (simp add: await_result_def await_def returns_def throws_def fun_eq_iff
      split: settled.splits)

lemmas alone_simps = alone_assign alone_logging alone_provided alone_statements alone_and_then
  alone_catching alone_await_call alone_await_for alone_list_tools

lemma alone_case_option:
  "alone e (case x of None \<Rightarrow> a | Some c \<Rightarrow> b c) =
     (case x of None \<Rightarrow> alone e a | Some c \<Rightarrow> alone e (b c))"
  by (cases x) simp_all

lemma case_option_if:
  "(case x of None \<Rightarrow> a | Some c \<Rightarrow> m) = (if x = None then a else m)"
  by (cases x) simp_all

lemma case_option_when:
  "(case x of None \<Rightarrow> returns () | Some c \<Rightarrow> m) = when_do (x \<noteq> None) m"
  by (cases x) (simp_all add: when_do_def)

lemma if_applied: "(if P then f else g) s = (if P then f s else g s)"
  by simp

lemma alone_if: "alone e (if b then m else n) = (if b then alone e m else alone e n)"
  by simp

lemma alone_updateHandlers:
  "alone e updateHandlersWithChildClient_task = updateHandlersWithChildClient"
  by (simp add: updateHandlersWithChildClient_task_def updateHandlersWithChildClient_def
      alone_simps del: and_then.simps catching.simps)

lemma alone_stopChildServer: "alone e stopChildServer_task = stopChildServer e"
  by (simp add: stopChildServer_task_def stopChildServer_def alone_simps alone_updateHandlers
      alone_case_option case_option_when del: and_then.simps catching.simps
      cong: option.case_cong)

lemma alone_notify: "alone e notifyCapabilityChanges_task = notifyCapabilityChanges e"
  by (simp add: notifyCapabilityChanges_task_def notifyCapabilityChanges_def
      notification_task_def notification_def alone_simps
      del: and_then.simps catching.simps)

lemma alone_mirror: "alone e mirrorChildCapabilities_task = mirrorChildCapabilities e"
  by (simp add: mirrorChildCapabilities_task_def mirrorChildCapabilities_def alone_simps
      alone_updateHandlers alone_notify alone_case_option case_option_if alone_if
      if_applied del: and_then.simps catching.simps cong: option.case_cong if_cong)

lemma alone_captureStderr:
  "transportShape rt = stderrAccess e \<Longrightarrow> childTransport s \<noteq> None \<Longrightarrow>
     alone e (captureStderr_task rt) s = captureStderr e s"
  by (cases "stderrAccess e")
     (auto simp: captureStderr_task_def captureStderr_def alone_simps try_catch_def
        simp del: and_then.simps catching.simps)

lemma then_do_both:
  "m s = m' s \<Longrightarrow> (\<And>x s'. m' s = (Returned x, s') \<Longrightarrow> k x s' = k' x s') \<Longrightarrow>
     then_do m k s = then_do m' k' s"
  by (auto simp: then_do_def split: prod.splits completion.splits)

lemma alone_startChildServer:
  assumes "transportShape rt = stderrAccess e"
  shows "alone e (startChildServer_task rt) s = startChildServer e s"
  apply (simp only: startChildServer_task_def startChildServer_def statements.simps block.simps
      alone_and_then)
  apply (rule then_do_both)
   apply (simp add: alone_await_call alone_stopChildServer)
  apply (rule then_do_both)
   apply (simp add: alone_logging)
  apply (rule then_do_both)
   apply (simp add: alone_assign)
  apply (rule then_do_both)
   apply (simp add: alone_assign)
  apply (rule then_do_both)
   apply (clarsimp simp: update_def logger_def alone_await_for)
  apply (rule then_do_both)
   apply (rule alone_captureStderr[OF assms])
   apply (clarsimp simp: update_def logger_def await_def split: settled.splits)
  apply (rule then_do_both)
   apply (simp add: alone_await_call alone_mirror)
  apply (rule then_do_both)
   apply (simp add: alone_logging)
  apply simp
  done

lemma alone_handleRestartServer:
  assumes "transportShape rt = stderrAccess e"
  shows "alone e (handleRestartServer_task rt a) s = handleRestartServer e a s"
proof -
  have "alone e (await_call (startChildServer_task rt)) = startChildServer e"
    by (simp add: alone_await_call alone_startChildServer[OF assms] fun_eq_iff)
  then show ?thesis
    by (simp add: handleRestartServer_task_def handleRestartServer_def Let_def alone_simps
        del: and_then.simps catching.simps)
qed

lemma alone_start:
  assumes "transportShape rt = stderrAccess e"
  shows "alone e (start_task rt) s = start e s"
proof -
  have "alone e (await_call (startChildServer_task rt)) = startChildServer e"
    by (simp add: alone_await_call alone_startChildServer[OF assms] fun_eq_iff)
  then show ?thesis
    by (simp add: start_task_def start_def alone_simps
        del: and_then.simps catching.simps)
qed

lemma alone_stop: "alone e stop_task = stop e"
  by (simp add: stop_task_def stop_def alone_simps alone_stopChildServer alone_if if_applied
      fun_eq_iff del: and_then.simps catching.simps cong: if_cong)

lemma alone_handleShutdown: "alone e (handleShutdown_task sig) = handleShutdown e sig"
  by (simp add: handleShutdown_task_def handleShutdown_def alone_simps alone_stop
      del: and_then.simps catching.simps)

text \<open>A call that runs alone does not depend on the shape recorded in its environment.\<close>

lemma settles_stderrAccess: "settles (e\<lparr>stderrAccess := x\<rparr>) p = settles e p"
proof (cases p)
  case (ServerNotification n)
  then show ?thesis by (cases n) simp_all
qed simp_all

lemma alone_stderrAccess: "alone (e\<lparr>stderrAccess := x\<rparr>) t = alone e t"
  by (induction t) (auto simp: settles_stderrAccess fun_eq_iff split: settled.splits)

lemma alone_handleRestartServer_any:
  "alone e (handleRestartServer_task rt a) s =
     handleRestartServer (e\<lparr>stderrAccess := transportShape rt\<rparr>) a s"
  using alone_handleRestartServer[of rt "e\<lparr>stderrAccess := transportShape rt\<rparr>" a s]
  by (simp add: alone_stderrAccess)

lemma alone_start_any:
  "alone e (start_task rt) s = start (e\<lparr>stderrAccess := transportShape rt\<rparr>) s"
  using alone_start[of rt "e\<lparr>stderrAccess := transportShape rt\<rparr>" s]
  by (simp add: alone_stderrAccess)

section \<open>What every interleaving preserves\<close>

lemma keeps_and_then:
  "keeps I R E m \<Longrightarrow> (\<And>x. R x \<Longrightarrow> keeps I Q E (f x)) \<Longrightarrow> keeps I Q E (and_then m f)"
  by (induction m) auto

lemma keeps_catching:
  "keeps I R E' m \<Longrightarrow> (\<And>err. E' err \<Longrightarrow> keeps I R E (h err)) \<Longrightarrow>
     keeps I R E (catching m h)"
  by (induction m) auto

lemma keeps_mono:
  "keeps I R E t \<Longrightarrow> (\<And>x. R x \<Longrightarrow> R' x) \<Longrightarrow> (\<And>err. E err \<Longrightarrow> E' err) \<Longrightarrow>
     keeps I R' E' t"
  by (induction t) auto

lemma keeps_anything: "keeps (\<lambda>s. True) (\<lambda>x. True) (\<lambda>err. True) t"
  by (induction t) auto

lemma keeps_assign: "(\<And>s. I s \<Longrightarrow> I (f s)) \<Longrightarrow> keeps I (\<lambda>x. True) E (assign f)"
  by (simp add: assign_def)

lemma keeps_logging:
  "(\<And>s l. I s \<Longrightarrow> I (s\<lparr>logs := l\<rparr>)) \<Longrightarrow> keeps I (\<lambda>x. True) E (logging lvl msg d ctx)"
  by (simp add: logging_def assign_def)

lemma keeps_await_for: "keeps I (\<lambda>x. True) (\<lambda>err. True) (await_for p)"
  by (simp add: await_for_def split: settlement.splits)

lemma keeps_await_call: "keeps I R E m \<Longrightarrow> keeps I R E (await_call m)"
  unfolding await_call_def
  by (rule keeps_catching[where E' = E], rule keeps_and_then[where R = R]) simp_all

lemma keeps_statements:
  "(\<And>m. m \<in> set ms \<Longrightarrow> keeps I (\<lambda>x. True) E m) \<Longrightarrow>
     keeps I (\<lambda>x. True) E (statements ms)"
  by (induction ms) (auto intro: keeps_and_then)

lemma keeps_run:
  "keeps I R E t \<Longrightarrow> I s \<Longrightarrow>
     I (snd (run t s)) \<and>
     (case fst (run t s) of
        Done x \<Rightarrow> R x
      | Raised err \<Rightarrow> E err
      | Waiting p k \<Rightarrow> \<forall>a. keeps I R E (k a))"
  by (induction t arbitrary: s) auto

lemma sound_idle: "I s \<Longrightarrow> sound I R E (idle s)"
  by (simp add: sound_def idle_def)

lemma sound_invoke:
  assumes "sound I R E sys" and "keeps I R E t"
  shows "sound I R E (invoke t sys)"
proof -
  from assms have "I (object sys)" by (simp add: sound_def)
  from keeps_run[OF assms(2) this] assms(1) show ?thesis
    by (auto simp: sound_def invoke_def upholds_def split: prod.splits)
qed

lemma sound_resume:
  assumes "sound I R E sys"
  shows "sound I R E (resume i a sys)"
proof (cases "i < length (calls sys)")
  case False
  with assms show ?thesis by (simp add: resume_def)
next
  case True
  show ?thesis
  proof (cases "calls sys ! i")
    case (Waiting p k)
    from True have "calls sys ! i \<in> set (calls sys)" by simp
    with assms Waiting have k: "keeps I R E (k a)" and I: "I (object sys)"
      by (auto simp: sound_def upholds_def)
    from keeps_run[OF k I] assms True Waiting show ?thesis
      by (auto simp: sound_def resume_def upholds_def split: prod.splits
          dest!: set_update_subset_insert[THEN subsetD])
  qed (use assms True in \<open>simp_all add: resume_def\<close>)
qed

lemma sound_logged:
  assumes "sound I R E sys" and "\<And>s l. I s \<Longrightarrow> I (s\<lparr>logs := l\<rparr>)"
  shows "sound I R E (sys\<lparr>object := snd (run (logging lvl msg d ctx) (object sys))\<rparr>)"
    and "sound I R E
           (sys\<lparr>object := snd (run (provided b (logging lvl msg d ctx)) (object sys))\<rparr>)"
  using assms by (auto simp: sound_def logging_def assign_def provided_def)

subsection \<open>The shutdown path and the restart tool\<close>

lemma updateHandlers_keeps:
  "untouched_by_shutdown I \<Longrightarrow> keeps I (\<lambda>x. True) E updateHandlersWithChildClient_task"
  by (simp add: updateHandlersWithChildClient_task_def assign_def untouched_by_shutdown_def)

lemma stopChildServer_keeps:
  assumes "untouched_by_shutdown I"
  shows "keeps I (\<lambda>x. True) (\<lambda>err. False) stopChildServer_task"
proof -
  have close: "keeps I (\<lambda>x. True) (\<lambda>err. False)
      (catching (await_for p) (\<lambda>error. logging DEBUG msg (ErrorData error) None))" for p msg
    using assms
    by (intro keeps_catching[where E' = "\<lambda>err. True"] keeps_await_for keeps_logging)
       (simp add: untouched_by_shutdown_def)
  from assms show ?thesis
    unfolding stopChildServer_task_def
    by (intro keeps_statements)
       (auto simp: untouched_by_shutdown_def simp del: statements.simps split: option.splits
          intro!: keeps_statements close keeps_assign updateHandlers_keeps)
qed

lemma stop_keeps:
  assumes "untouched_by_shutdown I"
  shows "keeps I (\<lambda>x. True) (\<lambda>err. False) stop_task"
proof -
  have body: "keeps I (\<lambda>x. True) (\<lambda>err. True)
      (statements [await_call stopChildServer_task,
         and_then (await_for ServerClose) (\<lambda>_. assign (\<lambda>s. s\<lparr>serverConnected := False\<rparr>))])"
    using assms
    by (intro keeps_statements)
       (auto simp: untouched_by_shutdown_def simp del: statements.simps
          intro!: keeps_await_call keeps_mono[OF stopChildServer_keeps]
            keeps_and_then[OF keeps_await_for] keeps_assign)
  from assms show ?thesis
    unfolding stop_task_def
    by (auto simp: untouched_by_shutdown_def simp del: statements.simps
          intro!: keeps_statements keeps_assign keeps_logging
            keeps_catching[OF body])
qed

lemma handleShutdown_keeps:
  assumes "untouched_by_shutdown I"
  shows "keeps I (\<lambda>r. r = Void) (\<lambda>err. False)
           (and_then (handleShutdown_task sig) (\<lambda>_. Return Void))"
proof -
  from assms have "keeps I (\<lambda>x. True) (\<lambda>err. False) (handleShutdown_task sig)"
    unfolding handleShutdown_task_def
    by (intro keeps_statements)
       (auto simp: untouched_by_shutdown_def simp del: statements.simps
          intro!: keeps_await_call stop_keeps keeps_assign keeps_logging)
  then show ?thesis
    by (rule keeps_and_then) simp
qed

lemma handleRestartServer_keeps:
  "keeps (\<lambda>s. True)
     (\<lambda>r. r = ToolResult restartSucceeded \<or> (\<exists>err. r = ToolResult (restartFailed err)))
     (\<lambda>err. False)
     (and_then (handleRestartServer_task rt a) (\<lambda>r. Return (ToolResult r)))"
proof -
  have "keeps (\<lambda>s. True) (\<lambda>r. r = restartSucceeded \<or> (\<exists>err. r = restartFailed err))
          (\<lambda>err. False) (handleRestartServer_task rt a)"
    unfolding handleRestartServer_task_def Let_def
  proof (rule keeps_catching[where E' = "\<lambda>err. True"])
    show "keeps (\<lambda>s. True) (\<lambda>r. r = restartSucceeded \<or> (\<exists>err. r = restartFailed err))
        (\<lambda>err. True)
        (and_then
          (statements
            [logging INFO (''Executing '' @ RESTART_SERVER @ '' tool'')
               (ForceFlag (js_or (optional_get a ''force'') (Bool False))) None,
             assign (\<lambda>s. s\<lparr>restartInProgress := True\<rparr>),
             await_call (startChildServer_task rt)])
          (\<lambda>_. Return
             \<lparr>content = [TextContent
                ''Child MCP server restarted successfully. New capabilities have been loaded.''],
              isError = None\<rparr>))"
      by (rule keeps_and_then[OF keeps_anything]) (simp add: restartSucceeded_def)
  next
    fix err
    show "keeps (\<lambda>s. True) (\<lambda>r. r = restartSucceeded \<or> (\<exists>err. r = restartFailed err))
        (\<lambda>err. False)
        (and_then
          (statements
            [assign (\<lambda>s. s\<lparr>restartInProgress := False\<rparr>),
             logging ERROR ''Failed to restart child server''
               (ErrorMessage (errorMessage err)) None])
          (\<lambda>_. Return
             \<lparr>content = [TextContent (''Failed to restart child server: '' @ errorMessage err)],
              isError = Some True\<rparr>))"
      by (rule keeps_and_then[where R = "\<lambda>x. True"])
         (auto simp: restartFailed_def simp del: statements.simps
            intro!: keeps_statements keeps_assign keeps_logging)
  qed
  then show ?thesis
    by (rule keeps_and_then) simp
qed

subsection \<open>Every call ends with a reply\<close>

lemma calls_reply_deliver:
  assumes "sound (\<lambda>s. True) restart_reply (\<lambda>err. False) sys"
  shows "sound (\<lambda>s. True) restart_reply (\<lambda>err. False) (deliver rt ev sys)"
proof (cases "exitCode (object sys) = None")
  case False
  with assms show ?thesis by (simp add: deliver_def)
next
  case True
  have shutdown: "untouched_by_shutdown (\<lambda>s. True)"
    by (simp add: untouched_by_shutdown_def)
  show ?thesis
  proof (cases ev)
    case (RestartRequest a)
    have "keeps (\<lambda>s. True) restart_reply (\<lambda>err. False)
        (and_then (handleRestartServer_task rt a) (\<lambda>r. Return (ToolResult r)))"
      by (rule keeps_mono[OF handleRestartServer_keeps]) (auto simp: restart_reply_def)
    from sound_invoke[OF assms this] True RestartRequest show ?thesis
      by (simp add: deliver_def)
  next
    case (Signal sig)
    have "keeps (\<lambda>s. True) restart_reply (\<lambda>err. False)
        (and_then (handleShutdown_task sig) (\<lambda>_. Return Void))"
      by (rule keeps_mono[OF handleShutdown_keeps[OF shutdown]]) (auto simp: restart_reply_def)
    from sound_invoke[OF assms this] True Signal show ?thesis
      by (simp add: deliver_def)
  next
    case (ServerError err)
    with True sound_logged(1)[OF assms] show ?thesis by (simp add: deliver_def)
  next
    case (StderrOutput out)
    with True sound_logged(2)[OF assms] assms show ?thesis by (simp add: deliver_def)
  next
    case (Settled i a)
    with True sound_resume[OF assms] show ?thesis by (simp add: deliver_def)
  qed
qed

lemma calls_reply_exec:
  "sound (\<lambda>s. True) restart_reply (\<lambda>err. False) sys \<Longrightarrow>
     sound (\<lambda>s. True) restart_reply (\<lambda>err. False) (exec rt evs sys)"
  by (induction evs arbitrary: sys) (simp_all add: calls_reply_deliver)

lemma every_call_replies:
  assumes "c \<in> set (calls (exec rt evs (idle s)))"
  shows "result_of c = Pending \<or> result_of c = Returned Void \<or>
         result_of c = Returned (ToolResult restartSucceeded) \<or>
         (\<exists>err. result_of c = Returned (ToolResult (restartFailed err)))"
proof -
  have "sound (\<lambda>s. True) restart_reply (\<lambda>err. False) (exec rt evs (idle s))"
    by (rule calls_reply_exec) (simp add: sound_idle)
  with assms have "upholds (\<lambda>s. True) restart_reply (\<lambda>err. False) c"
    by (simp add: sound_def)
  then show ?thesis
    by (cases c) (auto simp: upholds_def restart_reply_def)
qed

subsection \<open>No child is created without a request\<close>

lemma no_child_deliver:
  assumes "sound (same_child s) (\<lambda>r. r = Void) (\<lambda>err. False) sys"
    and "\<And>a. ev \<noteq> RestartRequest a"
  shows "sound (same_child s) (\<lambda>r. r = Void) (\<lambda>err. False) (deliver rt ev sys)"
proof (cases "exitCode (object sys) = None")
  case False
  with assms show ?thesis by (simp add: deliver_def)
next
  case True
  have shutdown: "untouched_by_shutdown (same_child s)"
    by (simp add: untouched_by_shutdown_def same_child_def)
  have logs: "\<And>s' l. same_child s s' \<Longrightarrow> same_child s (s'\<lparr>logs := l\<rparr>)"
    by (simp add: same_child_def)
  show ?thesis
  proof (cases ev)
    case (RestartRequest a)
    with assms(2)[of a] show ?thesis by simp
  next
    case (Signal sig)
    from sound_invoke[OF assms(1) handleShutdown_keeps[OF shutdown]] True Signal show ?thesis
      by (simp add: deliver_def)
  next
    case (ServerError err)
    with True sound_logged(1)[OF assms(1) logs] show ?thesis by (simp add: deliver_def)
  next
    case (StderrOutput out)
    with True sound_logged(2)[OF assms(1) logs] assms(1) show ?thesis
      by (simp add: deliver_def)
  next
    case (Settled i a)
    with True sound_resume[OF assms(1)] show ?thesis by (simp add: deliver_def)
  qed
qed

lemma no_child_exec:
  "sound (same_child s) (\<lambda>r. r = Void) (\<lambda>err. False) sys \<Longrightarrow>
   (\<And>a. RestartRequest a \<notin> set evs) \<Longrightarrow>
     sound (same_child s) (\<lambda>r. r = Void) (\<lambda>err. False) (exec rt evs sys)"
proof (induction evs arbitrary: sys)
  case Nil
  then show ?case by simp
next
  case (Cons ev evs)
  from Cons.prems(2) have "\<And>a. ev \<noteq> RestartRequest a" and "\<And>a. RestartRequest a \<notin> set evs"
    by auto
  with Cons.IH[OF no_child_deliver[OF Cons.prems(1)]] show ?case by simp
qed

lemma no_child_without_request:
  assumes "\<And>a. RestartRequest a \<notin> set evs"
  shows "same_child s (object (exec rt evs (idle s)))"
proof -
  have "sound (same_child s) (\<lambda>r. r = Void) (\<lambda>err. False) (idle s)"
    by (rule sound_idle) (simp add: same_child_def)
  from no_child_exec[OF this assms] show ?thesis
    by (simp add: sound_def)
qed

subsection \<open>Only its settlement resumes a call\<close>

lemma deliver_keeps_call:
  assumes "i < length (calls sys)" and "\<And>a. ev \<noteq> Settled i a"
  shows "calls (deliver rt ev sys) ! i = calls sys ! i \<and>
         i < length (calls (deliver rt ev sys))"
proof (cases ev)
  case (Settled j a)
  with assms(2) have "j \<noteq> i" by auto
  with assms(1) Settled show ?thesis
    by (auto simp: deliver_def resume_def split: paused.splits prod.splits)
qed (use assms(1) in \<open>auto simp: deliver_def invoke_def nth_append split: prod.splits\<close>)

lemma exec_keeps_call:
  "i < length (calls sys) \<Longrightarrow> (\<And>a. Settled i a \<notin> set evs) \<Longrightarrow>
     calls (exec rt evs sys) ! i = calls sys ! i \<and> i < length (calls (exec rt evs sys))"
proof (induction evs arbitrary: sys)
  case Nil
  then show ?case by simp
next
  case (Cons ev evs)
  from Cons.prems(2) have ev: "\<And>a. ev \<noteq> Settled i a" and evs: "\<And>a. Settled i a \<notin> set evs"
    by auto
  from deliver_keeps_call[OF Cons.prems(1) ev, of rt] Cons.IH[OF _ evs, of "deliver rt ev sys"]
  show ?case by simp
qed

subsection \<open>The first turn of a restart\<close>

lemma restart_request_accepted:
  assumes "exitCode (object sys) = None"
  shows "(\<exists>k. calls (deliver rt (RestartRequest a) sys) =
            calls sys @ [Waiting (teardown_begins (object sys)) k]) \<and>
     restartInProgress (object (deliver rt (RestartRequest a) sys)) \<and>
     childClient (object (deliver rt (RestartRequest a) sys)) = childClient (object sys) \<and>
     childTransport (object (deliver rt (RestartRequest a) sys)) = childTransport (object sys) \<and>
     allocated (object (deliver rt (RestartRequest a) sys)) = allocated (object sys) \<and>
     sent (object (deliver rt (RestartRequest a) sys)) = sent (object sys)"
  using assms
  by (cases "childClient (object sys)"; cases "childTransport (object sys)")
     (simp_all add: deliver_def invoke_def handleRestartServer_task_def Let_def
        startChildServer_task_def stopChildServer_task_def await_call_def await_for_def
        logging_def assign_def RESTART_SERVER_def teardown_begins_def)

subsection \<open>Running a scenario\<close>

text \<open>
  The turns of a call can be computed method by method, without unfolding the methods
  that a turn does not reach.
\<close>

lemma run_and_then:
  "run (and_then m f) s =
     (case run m s of
        (Done x, s') \<Rightarrow> run (f x) s'
      | (Raised err, s') \<Rightarrow> (Raised err, s')
      | (Waiting p k, s') \<Rightarrow> (Waiting p (\<lambda>a. and_then (k a) f), s'))"
  by (induction m arbitrary: s) simp_all

lemma run_catching:
  "run (catching m h) s =
     (case run m s of
        (Done x, s') \<Rightarrow> (Done x, s')
      | (Raised err, s') \<Rightarrow> run (h err) s'
      | (Waiting p k, s') \<Rightarrow> (Waiting p (\<lambda>a. catching (k a) h), s'))"
  by (induction m arbitrary: s) simp_all

lemma run_assign: "run (assign f) s = (Done (), f s)"
  by (simp add: assign_def)

lemma run_logging:
  "run (logging lvl msg d ctx) s = (Done (), s\<lparr>logs := logs s @ [Log lvl msg d ctx]\<rparr>)"
  by (simp add: logging_def assign_def)

lemma run_provided: "run (provided b m) s = (if b then run m s else (Done (), s))"
  by (simp add: provided_def)

lemmas run_methods =
  arg_cong[where f = run, OF handleRestartServer_task_def]
  arg_cong[where f = run, OF startChildServer_task_def]
  arg_cong[where f = run, OF stopChildServer_task_def]
  arg_cong[where f = run, OF mirrorChildCapabilities_task_def]
  arg_cong[where f = run, OF captureStderr_task_def]
  arg_cong[where f = run, OF notifyCapabilityChanges_task_def]
  arg_cong[where f = run, OF notification_task_def]
  arg_cong[where f = run, OF updateHandlersWithChildClient_task_def]
  arg_cong[where f = run, OF handleShutdown_task_def]
  arg_cong[where f = run, OF stop_task_def]
  arg_cong[where f = run, OF await_call_def]
  arg_cong[where f = run, OF await_for_def]
  arg_cong[where f = run, OF await_result_def]

lemmas scenario_defs = first_restart_connecting_def deliver_def invoke_def resume_def idle_def
  run_and_then run_catching run_assign run_logging run_provided run_methods running_eq
  node_def fulfilled_def echo_config_def echo_tool_def RESTART_SERVER_def Let_def
  restartFailed_def restartSucceeded_def

section \<open>The claims\<close>

text \<open>
  C1 (as the code has it). A restart request that arrives while a restart is already in
  progress is not rejected: \<open>handleRestartServer\<close> has no guard, and the class knows no
  conflict error. Whatever calls are suspended and whatever \<open>restartInProgress\<close> holds,
  the request is taken up like any other. When it arrives, the new call sets
  \<open>restartInProgress\<close> and is suspended at the first \<open>await\<close> of its own child teardown,
  which closes the client then in place (the one a restart in progress has installed,
  if it has); so far it has created and reset nothing, and no reply has been given.
  In every interleaving of requests, signals and settlements, a call of the proxy that
  has ended has returned: a call of the restart tool returns the success result or an
  error-marked result, and never throws. Two restarts of the same child thus interleave
  at their \<open>await\<close>s.
\<close>

theorem restart_request_is_never_rejected:
  "(exitCode (object sys) = None \<longrightarrow>
      (\<exists>k. calls (deliver rt (RestartRequest a) sys) =
             calls sys @ [Waiting (teardown_begins (object sys)) k]) \<and>
      restartInProgress (object (deliver rt (RestartRequest a) sys)) \<and>
      childClient (object (deliver rt (RestartRequest a) sys)) = childClient (object sys) \<and>
      childTransport (object (deliver rt (RestartRequest a) sys)) =
        childTransport (object sys) \<and>
      allocated (object (deliver rt (RestartRequest a) sys)) = allocated (object sys)) \<and>
   (c \<in> set (calls (exec rt evs (idle s))) \<longrightarrow>
      result_of c = Pending \<or> result_of c = Returned Void \<or>
      result_of c = Returned (ToolResult restartSucceeded) \<or>
      (\<exists>err. result_of c = Returned (ToolResult (restartFailed err))))"
proof (intro conjI impI)
  assume live: "exitCode (object sys) = None"
  from restart_request_accepted[OF live, of rt a]
  show "\<exists>k. calls (deliver rt (RestartRequest a) sys) =
             calls sys @ [Waiting (teardown_begins (object sys)) k]"
    and "restartInProgress (object (deliver rt (RestartRequest a) sys))"
    and "childClient (object (deliver rt (RestartRequest a) sys)) = childClient (object sys)"
    and "childTransport (object (deliver rt (RestartRequest a) sys)) =
        childTransport (object sys)"
    and "allocated (object (deliver rt (RestartRequest a) sys)) = allocated (object sys)"
    by simp_all
next
  assume "c \<in> set (calls (exec rt evs (idle s)))"
  then show "result_of c = Pending \<or> result_of c = Returned Void \<or>
      result_of c = Returned (ToolResult restartSucceeded) \<or>
      (\<exists>err. result_of c = Returned (ToolResult (restartFailed err)))"
    by (rule every_call_replies)
qed

text \<open>
  An instance: the first restart has installed client 3 and is waiting for its
  handshake, with \<open>restartInProgress\<close> set, when a second request arrives; the second
  call is suspended at the closing of client 3. And a restart whose handshake is
  rejected ends with the error-marked result.
\<close>

theorem restart_request_is_never_rejected_witness:
  "exitCode (object first_restart_connecting) = None \<and>
   restartInProgress (object first_restart_connecting) \<and>
   map waits_for (calls first_restart_connecting) =
     [Some (ClientConnect 3 (Transport 2 ''node'' [''echo-server.js''] []))] \<and>
   map waits_for (calls (deliver node (RestartRequest Undefined) first_restart_connecting)) =
     [Some (ClientConnect 3 (Transport 2 ''node'' [''echo-server.js''] [])),
      Some (ClientClose 3)] \<and>
   restartInProgress
     (object (deliver node (RestartRequest Undefined) first_restart_connecting)) \<and>
   calls (exec node
            [Settled 0 (Rejection (JsError ''spawn node ENOENT'')), Settled 0 fulfilled]
            first_restart_connecting) ! 0
     \<in> set (calls (exec node
            [Settled 0 (Rejection (JsError ''spawn node ENOENT'')), Settled 0 fulfilled]
            first_restart_connecting)) \<and>
   result_of (calls (exec node
            [Settled 0 (Rejection (JsError ''spawn node ENOENT'')), Settled 0 fulfilled]
            first_restart_connecting) ! 0) =
     Returned (ToolResult (restartFailed (JsError ''spawn node ENOENT'')))"
proof -
  let ?evs = "[RestartRequest Undefined, Settled 0 fulfilled, Settled 0 fulfilled,
     Settled 0 fulfilled, Settled 0 (Rejection (JsError ''spawn node ENOENT'')),
     Settled 0 fulfilled]"
  let ?end = "exec node
     [Settled 0 (Rejection (JsError ''spawn node ENOENT'')), Settled 0 fulfilled]
     first_restart_connecting"
  have live: "exitCode (object first_restart_connecting) = None"
    and flag: "restartInProgress (object first_restart_connecting)"
    and waits: "map waits_for (calls first_restart_connecting) =
     [Some (ClientConnect 3 (Transport 2 ''node'' [''echo-server.js''] []))]"
    and client: "teardown_begins (object first_restart_connecting) = ClientClose 3"
    by (simp_all add: scenario_defs teardown_begins_def del: and_then.simps catching.simps)
  have ended: "map result_of (calls ?end) =
     [Returned (ToolResult (restartFailed (JsError ''spawn node ENOENT'')))]"
    by (simp add: scenario_defs del: and_then.simps catching.simps)
  then have "length (calls ?end) = 1"
    by (metis length_map length_Cons list.size(3) One_nat_def)
  then have member: "calls ?end ! 0 \<in> set (calls ?end)" by simp
  from ended have result: "result_of (calls ?end ! 0) =
     Returned (ToolResult (restartFailed (JsError ''spawn node ENOENT'')))"
    by (auto simp: map_eq_Cons_conv)
  have run: "?end = exec node ?evs (idle running)"
    by (simp add: first_restart_connecting_def)
  from restart_request_is_never_rejected
         [of first_restart_connecting node Undefined "calls ?end ! 0" ?evs running] live
  obtain k where
    "calls (deliver node (RestartRequest Undefined) first_restart_connecting) =
       calls first_restart_connecting @
         [Waiting (teardown_begins (object first_restart_connecting)) k]"
    and "restartInProgress (object (deliver node (RestartRequest Undefined)
           first_restart_connecting))"
    by blast
  with live flag waits client member result show ?thesis by simp
qed

text \<open>
  C1 as stated fails. A first restart is suspended at the handshake of the new child,
  with \<open>restartInProgress\<close> set and client 3 installed. A second request that arrives
  then is not rejected. It closes client 3 and the transport, installs client 5 and
  starts its own handshake; when the handshake of the first restart is then fulfilled,
  the first call goes on with client 5, of which it queries the tools. The second call
  completes with the success result while the first one is still waiting.
\<close>

theorem restart_during_restart_counterexample:
  "map waits_for (calls first_restart_connecting) =
     [Some (ClientConnect 3 (Transport 2 ''node'' [''echo-server.js''] []))] \<and>
   restartInProgress (object first_restart_connecting) \<and>
   map waits_for (calls (exec node
      [RestartRequest Undefined, Settled 1 fulfilled, Settled 1 fulfilled, Settled 1 fulfilled,
       Settled 0 fulfilled]
      first_restart_connecting)) =
     [Some (ListTools 5),
      Some (ClientConnect 5 (Transport 4 ''node'' [''echo-server.js''] []))] \<and>
   map result_of (calls (exec node
      [RestartRequest Undefined, Settled 1 fulfilled, Settled 1 fulfilled, Settled 1 fulfilled,
       Settled 0 fulfilled,
       Settled 1 fulfilled, Settled 1 (Fulfilment (Some [echo_tool])), Settled 1 fulfilled,
       Settled 1 fulfilled, Settled 1 fulfilled, Settled 1 fulfilled, Settled 1 fulfilled,
       Settled 1 fulfilled]
      first_restart_connecting)) =
     [Pending, Returned (ToolResult restartSucceeded)]"
  by (simp add: scenario_defs del: and_then.simps catching.simps)

text \<open>
  C2 (what the code does where it departs from the claim). The class restarts no child
  on its own. It installs nothing for the exit of the child, so after such an exit code
  of the class runs only for what is delivered next; and whatever is delivered (signals,
  errors of the upstream server, stderr output, settlements of awaited promises), as
  long as it is no call of the restart tool, no child client and no child transport is
  created: no identity is handed out, and the proxy keeps the client and the transport
  it had, unless a shutdown has reset them. This holds for every configuration, also
  with \<open>autoRestart\<close> enabled and no restart attempted so far.
\<close>

theorem no_child_is_started_without_a_request:
  assumes "\<And>a. RestartRequest a \<notin> set evs"
  shows "allocated (object (exec rt evs (idle s))) = allocated s \<and>
         (childClient (object (exec rt evs (idle s))) = childClient s \<or>
          childClient (object (exec rt evs (idle s))) = None) \<and>
         (childTransport (object (exec rt evs (idle s))) = childTransport s \<or>
          childTransport (object (exec rt evs (idle s))) = None)"
  using no_child_without_request[OF assms, of s rt] by (simp add: same_child_def)

text \<open>
  An instance: the proxy runs with \<open>autoRestart\<close> enabled, \<open>maxRestarts = 3\<close> and
  \<open>restartDelay = 1000\<close>, and its child crashes. The last stderr output and an error of
  the upstream server are delivered, and a promise is rejected that no call awaits.
  No call is made, no child is created, and the proxy still holds client 1.
\<close>

theorem no_child_is_started_without_a_request_witness:
  "autoRestart (config running) \<and> maxRestarts (config running) = 3 \<and>
   restartDelay (config running) = 1000 \<and>
   allocated running = 2 \<and> childClient running = Some 1 \<and>
   allocated (object (exec node
      [StderrOutput ''Error: Cannot find module'', ServerError (JsError ''read ECONNRESET''),
       Settled 0 (Rejection (JsError ''Connection closed''))]
      (idle running))) = 2 \<and>
   childClient (object (exec node
      [StderrOutput ''Error: Cannot find module'', ServerError (JsError ''read ECONNRESET''),
       Settled 0 (Rejection (JsError ''Connection closed''))]
      (idle running))) = Some 1 \<and>
   calls (exec node
      [StderrOutput ''Error: Cannot find module'', ServerError (JsError ''read ECONNRESET''),
       Settled 0 (Rejection (JsError ''Connection closed''))]
      (idle running)) = []"
proof -
  have "calls (exec node
      [StderrOutput ''Error: Cannot find module'', ServerError (JsError ''read ECONNRESET''),
       Settled 0 (Rejection (JsError ''Connection closed''))]
      (idle running)) = []"
    and "childClient (object (exec node
      [StderrOutput ''Error: Cannot find module'', ServerError (JsError ''read ECONNRESET''),
       Settled 0 (Rejection (JsError ''Connection closed''))]
      (idle running))) = Some 1"
    by (simp_all add: scenario_defs del: and_then.simps catching.simps)
  with no_child_is_started_without_a_request[of
      "[StderrOutput ''Error: Cannot find module'', ServerError (JsError ''read ECONNRESET''),
        Settled 0 (Rejection (JsError ''Connection closed''))]" node running]
  show ?thesis by (simp add: running_eq echo_config_def)
qed

text \<open>
  C3 (as the code has it). Take a call of the restart tool that runs alone, with no
  other call of the proxy in between. If its teardown settles, its handshake and its
  tool-list query are fulfilled and its three upstream sends are fulfilled, the call
  reports success and the proxy has emitted the tools, prompts and resources
  list-changed notifications exactly once each, in that order, whatever the child
  advertises. Every such call emits each of them at most once, in that order,
  stopping at the first send that is not fulfilled. The first \<open>start\<close> of a proxy,
  run alone, emits none.
\<close>

theorem restart_notifications:
  "(clientClose e \<noteq> Unsettled \<and> transportClose e \<noteq> Unsettled \<and>
    clientConnect e = Resolved () \<and> listTools e = Resolved r \<and>
    toolsNotification e = Resolved () \<and> promptsNotification e = Resolved () \<and>
    resourcesNotification e = Resolved () \<longrightarrow>
      fst (alone e (handleRestartServer_task rt a) s) = Returned restartSucceeded \<and>
      sent (snd (alone e (handleRestartServer_task rt a) s)) =
        sent s @ [TOOLS_LIST_CHANGED, PROMPTS_LIST_CHANGED, RESOURCES_LIST_CHANGED]) \<and>
   sent (snd (alone e (handleRestartServer_task rt a) s)) \<in>
     {sent s, sent s @ [TOOLS_LIST_CHANGED],
      sent s @ [TOOLS_LIST_CHANGED, PROMPTS_LIST_CHANGED],
      sent s @ [TOOLS_LIST_CHANGED, PROMPTS_LIST_CHANGED, RESOURCES_LIST_CHANGED]} \<and>
   sent (snd (alone e (start_task rt) (MCPProxy cfg))) = []"
proof -
  let ?e = "e\<lparr>stderrAccess := transportShape rt\<rparr>"
  have "clientClose ?e = clientClose e" "transportClose ?e = transportClose e"
    "clientConnect ?e = clientConnect e" "listTools ?e = listTools e"
    "toolsNotification ?e = toolsNotification e"
    "promptsNotification ?e = promptsNotification e"
    "resourcesNotification ?e = resourcesNotification e"
    by simp_all
  with handleRestartServer_outcomes(5)[of ?e r a s] handleRestartServer_sent[of ?e a s]
    start_fresh_sends_nothing[of ?e cfg]
  show ?thesis
    unfolding alone_handleRestartServer_any alone_start_any by auto
qed

theorem restart_notifications_witness:
  "clientClose cooperative \<noteq> Unsettled \<and> transportClose cooperative \<noteq> Unsettled \<and>
   clientConnect cooperative = Resolved () \<and> listTools cooperative = Resolved (Some [echo_tool]) \<and>
   toolsNotification cooperative = Resolved () \<and>
   promptsNotification cooperative = Resolved () \<and>
   resourcesNotification cooperative = Resolved () \<and>
   fst (alone cooperative (handleRestartServer_task node (Obj [(''force'', Bool True)])) running)
     = Returned restartSucceeded \<and>
   sent (snd (alone cooperative (handleRestartServer_task node (Obj [(''force'', Bool True)]))
                running))
     = [TOOLS_LIST_CHANGED, PROMPTS_LIST_CHANGED, RESOURCES_LIST_CHANGED]"
  using restart_notifications[of cooperative "Some [echo_tool]" node
          "Obj [(''force'', Bool True)]" running echo_config]
  by (simp add: cooperative_def running_eq)

text \<open>
  C3 as stated fails. A restart whose first upstream send is rejected reconnects and
  reports success, and no notification is emitted: the other two are not attempted.
  And a restart that overlaps another one can report success without any
  notification. The first restart is waiting for its handshake when the second request
  arrives; the second call closes the client of the first, whose handshake is then
  rejected, so that the first call reports a failure and clears \<open>restartInProgress\<close>;
  the second call completes its own start, finds the flag cleared when the tool list
  arrives, and reports success having sent nothing.
\<close>

theorem restart_without_notifications_counterexample:
  "fst (alone (cooperative\<lparr>toolsNotification := Rejected (JsError ''Not connected'')\<rparr>)
          (handleRestartServer_task node Undefined) running) = Returned restartSucceeded \<and>
   sent (snd (alone (cooperative\<lparr>toolsNotification := Rejected (JsError ''Not connected'')\<rparr>)
          (handleRestartServer_task node Undefined) running)) = [] \<and>
   map result_of (calls (exec node
      [RestartRequest Undefined, Settled 1 fulfilled,
       Settled 0 (Rejection (JsError ''Connection closed'')), Settled 0 fulfilled,
       Settled 1 fulfilled, Settled 1 fulfilled, Settled 1 fulfilled,
       Settled 1 (Fulfilment (Some [echo_tool])), Settled 1 fulfilled, Settled 1 fulfilled]
      first_restart_connecting)) =
     [Returned (ToolResult (restartFailed (JsError ''Connection closed''))),
      Returned (ToolResult restartSucceeded)] \<and>
   sent (object (exec node
      [RestartRequest Undefined, Settled 1 fulfilled,
       Settled 0 (Rejection (JsError ''Connection closed'')), Settled 0 fulfilled,
       Settled 1 fulfilled, Settled 1 fulfilled, Settled 1 fulfilled,
       Settled 1 (Fulfilment (Some [echo_tool])), Settled 1 fulfilled, Settled 1 fulfilled]
      first_restart_connecting)) = []"
proof -
  have "fst (alone (cooperative\<lparr>toolsNotification := Rejected (JsError ''Not connected'')\<rparr>)
          (handleRestartServer_task node Undefined) running) = Returned restartSucceeded \<and>
   sent (snd (alone (cooperative\<lparr>toolsNotification := Rejected (JsError ''Not connected'')\<rparr>)
          (handleRestartServer_task node Undefined) running)) = []"
    unfolding alone_handleRestartServer_any
    by (simp add: running_eq cooperative_def handleRestartServer_def startChildServer_def
      stopChildServer_def mirrorChildCapabilities_def captureStderr_def
      notifyCapabilityChanges_def notification_def updateHandlersWithChildClient_def
      restartSucceeded_def echo_config_def echo_tool_def RESTART_SERVER_def js_or_def
      Let_def async_defs node_def)
  moreover have "map result_of (calls (exec node
      [RestartRequest Undefined, Settled 1 fulfilled,
       Settled 0 (Rejection (JsError ''Connection closed'')), Settled 0 fulfilled,
       Settled 1 fulfilled, Settled 1 fulfilled, Settled 1 fulfilled,
       Settled 1 (Fulfilment (Some [echo_tool])), Settled 1 fulfilled, Settled 1 fulfilled]
      first_restart_connecting)) =
     [Returned (ToolResult (restartFailed (JsError ''Connection closed''))),
      Returned (ToolResult restartSucceeded)] \<and>
   sent (object (exec node
      [RestartRequest Undefined, Settled 1 fulfilled,
       Settled 0 (Rejection (JsError ''Connection closed'')), Settled 0 fulfilled,
       Settled 1 fulfilled, Settled 1 fulfilled, Settled 1 fulfilled,
       Settled 1 (Fulfilment (Some [echo_tool])), Settled 1 fulfilled, Settled 1 fulfilled]
      first_restart_connecting)) = []"
    by (simp add: scenario_defs del: and_then.simps catching.simps)
  ultimately show ?thesis by simp
qed



text \<open>
  C5. Let the teardown and the handshake of a (re)start succeed and the tool-list query
  of the child be rejected. If the error is method-not-found, the cache becomes empty
  and the (re)start completes: \<open>startChildServer\<close> returns with the new client
  installed in the class and in the tool handler, the restart tool reports success,
  and \<open>start\<close> returns once the upstream server is connected. With any other error
  the (re)start fails with that error: \<open>startChildServer\<close> and \<open>start\<close> throw it, and
  the restart tool reports it.
\<close>

theorem tools_list_failure:
  assumes "clientClose e \<noteq> Unsettled" and "transportClose e \<noteq> Unsettled"
    and "clientConnect e = Resolved ()" and "listTools e = Rejected err"
  shows "if isMethodNotFound err
         then fst (startChildServer e s) = Returned () \<and>
              childTools (snd (startChildServer e s)) = [] \<and>
              toolHandlerTools (snd (startChildServer e s)) = [] \<and>
              childClient (snd (startChildServer e s)) = Some (Suc (allocated s)) \<and>
              toolHandlerClient (snd (startChildServer e s)) = Some (Suc (allocated s)) \<and>
              fst (handleRestartServer e a s) = Returned restartSucceeded \<and>
              (serverConnect e = Resolved () \<longrightarrow> fst (start e s) = Returned ())
         else fst (startChildServer e s) = Threw err \<and>
              fst (handleRestartServer e a s) = Returned (restartFailed err) \<and>
              fst (start e s) = Threw err"
  using startChildServer_tools_rejected[OF assms, of s]
    handleRestartServer_outcomes(3,4)[OF assms(1,2,3,4), of a s]
    start_tools_rejected[OF assms, of s]
  by (simp split: if_splits)

theorem tools_list_failure_witness:
  "clientClose cooperative \<noteq> Unsettled \<and> transportClose cooperative \<noteq> Unsettled \<and>
   clientConnect cooperative = Resolved () \<and>
   isMethodNotFound (McpError MethodNotFound ''Method not found'') \<and>
   fst (startChildServer
          (cooperative\<lparr>listTools := Rejected (McpError MethodNotFound ''Method not found'')\<rparr>)
          running) = Returned () \<and>
   childTools (snd (startChildServer
          (cooperative\<lparr>listTools := Rejected (McpError MethodNotFound ''Method not found'')\<rparr>)
          running)) = [] \<and>
   \<not> isMethodNotFound (McpError (- 32603) ''Internal error'') \<and>
   fst (startChildServer
          (cooperative\<lparr>listTools := Rejected (McpError (- 32603) ''Internal error'')\<rparr>)
          running) = Threw (McpError (- 32603) ''Internal error'')"
  using tools_list_failure
          [of "cooperative\<lparr>listTools :=
                 Rejected (McpError MethodNotFound ''Method not found'')\<rparr>"
              "McpError MethodNotFound ''Method not found''" running Undefined]
        tools_list_failure
          [of "cooperative\<lparr>listTools := Rejected (McpError (- 32603) ''Internal error'')\<rparr>"
              "McpError (- 32603) ''Internal error''" running Undefined]
  by (simp add: cooperative_def MethodNotFound_def)

text \<open>
  C6. The restart tool call never throws: it returns the success result or an
  error-marked result, or it is still suspended. It leaves the upstream connection as
  it was. When the handshake with the new child is rejected (which is where a spawn
  error surfaces), or the tool-list query is rejected with an error other than
  method-not-found, the call returns the error-marked result that carries the
  message of that error.
\<close>

theorem failed_restart_is_reported:
  "(\<forall>err. fst (handleRestartServer e a s) \<noteq> Threw err) \<and>
   (\<forall>res. fst (handleRestartServer e a s) = Returned res \<longrightarrow>
      res = restartSucceeded \<or> (\<exists>err. res = restartFailed err)) \<and>
   serverConnected (snd (handleRestartServer e a s)) = serverConnected s \<and>
   (clientClose e \<noteq> Unsettled \<and> transportClose e \<noteq> Unsettled \<longrightarrow>
      (clientConnect e = Rejected err \<longrightarrow>
         fst (handleRestartServer e a s) = Returned (restartFailed err)) \<and>
      (clientConnect e = Resolved () \<and> listTools e = Rejected err \<and>
       \<not> isMethodNotFound err \<longrightarrow>
         fst (handleRestartServer e a s) = Returned (restartFailed err))) \<and>
   isError (restartFailed err) = Some True \<and>
   content (restartFailed err) =
     [TextContent (''Failed to restart child server: '' @ errorMessage err)]"
  using handleRestartServer_never_throws[of e a s] handleRestartServer_results[of e a s]
    handleRestartServer_frame(1)[of e a s] handleRestartServer_outcomes(1,3)[of e err a s]
  by (simp add: restartFailed_def)

theorem failed_restart_is_reported_witness:
  "clientClose cooperative \<noteq> Unsettled \<and> transportClose cooperative \<noteq> Unsettled \<and>
   fst (handleRestartServer
          (cooperative\<lparr>clientConnect := Rejected (JsError ''spawn node ENOENT'')\<rparr>)
          Undefined running) =
     Returned \<lparr>content = [TextContent
                  ''Failed to restart child server: spawn node ENOENT''],
               isError = Some True\<rparr> \<and>
   serverConnected
     (snd (handleRestartServer
             (cooperative\<lparr>clientConnect := Rejected (JsError ''spawn node ENOENT'')\<rparr>)
             Undefined running))"
  using failed_restart_is_reported
          [of "cooperative\<lparr>clientConnect := Rejected (JsError ''spawn node ENOENT'')\<rparr>"
              Undefined running "JsError ''spawn node ENOENT''"]
  by (simp add: cooperative_def running_eq restartFailed_def)

text \<open>
  C7 (what the code does where it departs from the claim). A restart attempt has no
  deadline. A suspended call goes on only when the promise it awaits is settled:
  whatever else is delivered in the meantime, the call stays where it is, and the class
  starts no timer that could settle or abandon it. What a call of the restart tool
  does and returns does not depend on \<open>restartTimeout\<close> (or on the rest of the restart
  policy); and while the handshake with the new child has not settled, the call stays
  suspended, with \<open>restartInProgress\<close> set and the new client installed.
\<close>

theorem restart_has_no_deadline:
  "(i < length (calls sys) \<and> (\<forall>a. Settled i a \<notin> set evs) \<longrightarrow>
      calls (exec rt evs sys) ! i = calls sys ! i) \<and>
   (same_but_policy s t \<longrightarrow>
      fst (alone e (handleRestartServer_task rt a) s) =
        fst (alone e (handleRestartServer_task rt a) t) \<and>
      same_but_policy (snd (alone e (handleRestartServer_task rt a) s))
        (snd (alone e (handleRestartServer_task rt a) t))) \<and>
   (clientClose e \<noteq> Unsettled \<and> transportClose e \<noteq> Unsettled \<and>
    clientConnect e = Unsettled \<longrightarrow>
      fst (alone e (handleRestartServer_task rt a) s) = Pending \<and>
      restartInProgress (snd (alone e (handleRestartServer_task rt a) s)) \<and>
      childClient (snd (alone e (handleRestartServer_task rt a) s)) = Some (Suc (allocated s)))"
proof (intro conjI impI)
  assume "i < length (calls sys) \<and> (\<forall>a. Settled i a \<notin> set evs)"
  then show "calls (exec rt evs sys) ! i = calls sys ! i"
    using exec_keeps_call[of i sys evs rt] by simp
next
  let ?e = "e\<lparr>stderrAccess := transportShape rt\<rparr>"
  assume "same_but_policy s t"
  with policy_handleRestartServer[of ?e a]
  show "fst (alone e (handleRestartServer_task rt a) s) =
        fst (alone e (handleRestartServer_task rt a) t)"
    and "same_but_policy (snd (alone e (handleRestartServer_task rt a) s))
        (snd (alone e (handleRestartServer_task rt a) t))"
    unfolding insensitive_def alone_handleRestartServer_any by simp_all
next
  let ?e = "e\<lparr>stderrAccess := transportShape rt\<rparr>"
  assume "clientClose e \<noteq> Unsettled \<and> transportClose e \<noteq> Unsettled \<and>
    clientConnect e = Unsettled"
  with handleRestartServer_outcomes(2)[of ?e a s]
  show "fst (alone e (handleRestartServer_task rt a) s) = Pending"
    and "restartInProgress (snd (alone e (handleRestartServer_task rt a) s))"
    and "childClient (snd (alone e (handleRestartServer_task rt a) s)) =
           Some (Suc (allocated s))"
    unfolding alone_handleRestartServer_any by simp_all
qed

text \<open>
  An instance: with \<open>restartTimeout = 30000\<close>, the restart tool is called and the
  handshake with the new child does not settle. The call is suspended at the
  handshake of client 3, with \<open>restartInProgress\<close> set, and it is still there after
  stderr output, an error of the upstream server and a settlement for another call
  have been delivered; with \<open>restartTimeout = 1\<close> it is suspended just the same.
\<close>

theorem restart_has_no_deadline_witness:
  "restartTimeout (config (object first_restart_connecting)) = 30000 \<and>
   restartInProgress (object first_restart_connecting) \<and>
   map waits_for (calls first_restart_connecting) =
     [Some (ClientConnect 3 (Transport 2 ''node'' [''echo-server.js''] []))] \<and>
   waits_for (calls (exec node
      [StderrOutput ''listening'', ServerError (JsError ''read ECONNRESET''),
       Settled 1 fulfilled]
      first_restart_connecting) ! 0) =
     Some (ClientConnect 3 (Transport 2 ''node'' [''echo-server.js''] [])) \<and>
   same_but_policy running (running\<lparr>config := echo_config\<lparr>restartTimeout := 1\<rparr>\<rparr>) \<and>
   clientClose (cooperative\<lparr>clientConnect := Unsettled\<rparr>) \<noteq> Unsettled \<and>
   transportClose (cooperative\<lparr>clientConnect := Unsettled\<rparr>) \<noteq> Unsettled \<and>
   clientConnect (cooperative\<lparr>clientConnect := Unsettled\<rparr>) = Unsettled \<and>
   fst (alone (cooperative\<lparr>clientConnect := Unsettled\<rparr>) (handleRestartServer_task node Undefined)
          (running\<lparr>config := echo_config\<lparr>restartTimeout := 1\<rparr>\<rparr>)) = Pending \<and>
   restartInProgress
     (snd (alone (cooperative\<lparr>clientConnect := Unsettled\<rparr>) (handleRestartServer_task node Undefined)
             running))"
proof -
  have cfg: "restartTimeout (config (object first_restart_connecting)) = 30000"
    and flag: "restartInProgress (object first_restart_connecting)"
    and waits: "map waits_for (calls first_restart_connecting) =
     [Some (ClientConnect 3 (Transport 2 ''node'' [''echo-server.js''] []))]"
    by (simp_all add: scenario_defs del: and_then.simps catching.simps)
  from waits have len: "0 < length (calls first_restart_connecting)"
    and first: "waits_for (calls first_restart_connecting ! 0) =
      Some (ClientConnect 3 (Transport 2 ''node'' [''echo-server.js''] []))"
    by (auto simp: map_eq_Cons_conv)
  have policy: "same_but_policy running (running\<lparr>config := echo_config\<lparr>restartTimeout := 1\<rparr>\<rparr>)"
    by (simp add: same_but_policy_iff running_eq echo_config_def)
  have env: "clientClose (cooperative\<lparr>clientConnect := Unsettled\<rparr>) \<noteq> Unsettled \<and>
     transportClose (cooperative\<lparr>clientConnect := Unsettled\<rparr>) \<noteq> Unsettled \<and>
     clientConnect (cooperative\<lparr>clientConnect := Unsettled\<rparr>) = Unsettled"
    by (simp add: cooperative_def)
  have none: "\<forall>a. Settled 0 a \<notin> set
      [StderrOutput ''listening'', ServerError (JsError ''read ECONNRESET''),
       Settled 1 fulfilled]"
    by simp
  note at_scenario = restart_has_no_deadline[of 0 first_restart_connecting
      "[StderrOutput ''listening'', ServerError (JsError ''read ECONNRESET''),
        Settled 1 fulfilled]" node running
      "running\<lparr>config := echo_config\<lparr>restartTimeout := 1\<rparr>\<rparr>"
      "cooperative\<lparr>clientConnect := Unsettled\<rparr>" Undefined]
  from at_scenario len none have still: "calls (exec node
      [StderrOutput ''listening'', ServerError (JsError ''read ECONNRESET''),
       Settled 1 fulfilled]
      first_restart_connecting) ! 0 = calls first_restart_connecting ! 0"
    by blast
  from at_scenario policy have same: "fst (alone (cooperative\<lparr>clientConnect := Unsettled\<rparr>)
               (handleRestartServer_task node Undefined) running) =
         fst (alone (cooperative\<lparr>clientConnect := Unsettled\<rparr>)
               (handleRestartServer_task node Undefined)
               (running\<lparr>config := echo_config\<lparr>restartTimeout := 1\<rparr>\<rparr>))"
    by blast
  from at_scenario env have pending: "fst (alone (cooperative\<lparr>clientConnect := Unsettled\<rparr>)
               (handleRestartServer_task node Undefined) running) = Pending"
    and inprogress: "restartInProgress
     (snd (alone (cooperative\<lparr>clientConnect := Unsettled\<rparr>)
             (handleRestartServer_task node Undefined) running))"
    by blast+
  from same pending have "fst (alone (cooperative\<lparr>clientConnect := Unsettled\<rparr>)
               (handleRestartServer_task node Undefined)
               (running\<lparr>config := echo_config\<lparr>restartTimeout := 1\<rparr>\<rparr>)) = Pending"
    by simp
  with cfg flag waits first policy env still inprogress show ?thesis
    by (simp only: simp_thms)
qed

text \<open>
  C8. Every invocation of the child teardown \<open>stopChildServer\<close> resets the local tool
  cache to the empty list before it returns, also when closing the child client or the
  child transport fails: the teardown never throws, it returns as soon as the two
  close calls have settled (fulfilled or rejected), and whenever it returns
  \<open>childTools\<close> is empty. The copy of the cache held by the tool handler is empty as
  well, provided it was empty whenever there was no child client.
\<close>

theorem stopChildServer_resets_tool_cache:
  "(\<forall>err. fst (stopChildServer e s) \<noteq> Threw err) \<and>
   (clientClose e \<noteq> Unsettled \<and> transportClose e \<noteq> Unsettled \<longrightarrow>
      fst (stopChildServer e s) = Returned ()) \<and>
   (fst (stopChildServer e s) = Returned () \<longrightarrow>
      childTools (snd (stopChildServer e s)) = [] \<and>
      ((childClient s = None \<longrightarrow> toolHandlerTools s = []) \<longrightarrow>
         toolHandlerTools (snd (stopChildServer e s)) = []))"
  by (intro conjI allI impI)
    (simp_all add: stopChildServer_never_throws stopChildServer_settles
       stopChildServer_returned stopChildServer_handler_tools)

theorem stopChildServer_resets_tool_cache_witness:
  "clientClose (cooperative\<lparr>clientClose := Rejected (JsError ''write EPIPE''),
                            transportClose := Rejected (JsError ''kill ESRCH'')\<rparr>) \<noteq> Unsettled \<and>
   transportClose (cooperative\<lparr>clientClose := Rejected (JsError ''write EPIPE''),
                               transportClose := Rejected (JsError ''kill ESRCH'')\<rparr>) \<noteq> Unsettled \<and>
   childTools running = [echo_tool] \<and>
   toolHandlerTools running = [echo_tool] \<and>
   childClient running \<noteq> None \<and>
   fst (stopChildServer (cooperative\<lparr>clientClose := Rejected (JsError ''write EPIPE''),
                                      transportClose := Rejected (JsError ''kill ESRCH'')\<rparr>)
          running) = Returned () \<and>
   childTools (snd (stopChildServer
                      (cooperative\<lparr>clientClose := Rejected (JsError ''write EPIPE''),
                                    transportClose := Rejected (JsError ''kill ESRCH'')\<rparr>)
                      running)) = [] \<and>
   toolHandlerTools (snd (stopChildServer
                      (cooperative\<lparr>clientClose := Rejected (JsError ''write EPIPE''),
                                    transportClose := Rejected (JsError ''kill ESRCH'')\<rparr>)
                      running)) = []"
  using stopChildServer_resets_tool_cache
          [of "cooperative\<lparr>clientClose := Rejected (JsError ''write EPIPE''),
                           transportClose := Rejected (JsError ''kill ESRCH'')\<rparr>" running]
  by (simp add: running_eq cooperative_def)

text \<open>
  C9. Calling \<open>stop\<close> on a proxy on which \<open>stop\<close> has already been called is a no-op: it
  returns without error and leaves every part of the state as it was.
\<close>

theorem stop_idempotent:
  "stop e2 (snd (stop e1 s)) = (Returned (), snd (stop e1 s))"
  using stop_sets_flag[of e1 s] by (simp add: stop_def returns_def)

text \<open>
  C10. Two invocations of the restart tool in the same state and environment, with any
  two argument values (in particular two that differ in \<open>force\<close> only, or of which one
  lacks it), complete in the same way, with the same result, and leave states that
  differ at most in the value of \<open>force\<close> written to the log.
\<close>

theorem force_is_only_logged:
  "fst (handleRestartServer e a1 s) = fst (handleRestartServer e a2 s) \<and>
   same_but_force (snd (handleRestartServer e a1 s)) (snd (handleRestartServer e a2 s))"
proof -
  let ?s1 = "s\<lparr>logs := logs s @ [Log INFO ''Executing restart_server tool''
                 (ForceFlag (js_or (optional_get a1 ''force'') (Bool False))) None],
               restartInProgress := True\<rparr>"
  let ?s2 = "s\<lparr>logs := logs s @ [Log INFO ''Executing restart_server tool''
                 (ForceFlag (js_or (optional_get a2 ''force'') (Bool False))) None],
               restartInProgress := True\<rparr>"
  have "same_but_force ?s1 ?s2" by (simp add: same_but_force_iff)
  with force_startChildServer[of e]
  have eq: "fst (startChildServer e ?s1) = fst (startChildServer e ?s2)"
    and rel: "same_but_force (snd (startChildServer e ?s1)) (snd (startChildServer e ?s2))"
    unfolding insensitive_def by blast+
  obtain r1 t1 where r1: "startChildServer e ?s1 = (r1, t1)"
    by (cases "startChildServer e ?s1")
  obtain r2 t2 where r2: "startChildServer e ?s2 = (r2, t2)"
    by (cases "startChildServer e ?s2")
  from eq rel r1 r2 have "r2 = r1" and "same_but_force t1 t2" by simp_all
  with r1 r2 show ?thesis
    by (cases r1) (simp_all add: handleRestartServer_eq same_but_force_iff)
qed

end
